theory Spec2Isabelle
  imports Main "HOL-Library.Sublist"
begin

section \<open>Data model of the auth context (src/frontend/src/contexts/AuthContext.tsx)\<close>

text \<open>
  The identity provider issues string ids; the \<open>User\<close> interface of lib/supabase.ts
  declares \<open>user_id: number\<close>, and the rows that come back from the store are untyped.
  A \<open>user_id\<close> is therefore either value, and \<open>!==\<close> is inequality of these values.
\<close>

datatype js_id = IdString string | IdNumber int

record User =
  user_id :: js_id
  first_name :: string
  last_name :: string
  email :: string
  password_hash :: string
  last_session_refresh :: string
  is_paid :: bool
  created_at :: string
  updated_at :: string

text \<open>The identity provider's user object, as far as the context reads it.\<close>

record auth_user =
  auth_id :: string
  auth_email :: "string option"
  email_confirmed_at :: "string option"

record auth_error =
  code :: "string option"
  message :: string
  status :: "nat option"

record pg_error =
  pg_message :: string
  pg_details :: string
  pg_hint :: string
  pg_code :: string

text \<open>
  A store response is the object \<open>{ data, error }\<close>; the code destructures the two
  fields and tests \<open>error\<close> alone, so each field is there or null on its own.
  \<open>PgData d\<close> is the answer with data and no error, \<open>PgError e\<close> the answer with
  an error and no data. An auth response carries \<open>data.user\<close> (possibly null) or an
  error.
\<close>

record 'a postgrest_response =
  res_data :: "'a option"
  res_error :: "pg_error option"

abbreviation PgData :: "'a \<Rightarrow> 'a postgrest_response" where
  "PgData d \<equiv> \<lparr>res_data = Some d, res_error = None\<rparr>"

abbreviation PgError :: "pg_error \<Rightarrow> 'a postgrest_response" where
  "PgError e \<equiv> \<lparr>res_data = None, res_error = Some e\<rparr>"

datatype auth_response = AuthData "auth_user option" | AuthError auth_error

text \<open>
  What an awaited promise does: it fulfils with a value, rejects with an error (of which
  the code only ever reads the message), or is still pending when the timer that bounds
  the wait fires (for a wait that no timer bounds: it never settles).
\<close>

datatype 'a promise = Fulfilled 'a | Rejected string | Pending

text \<open>A promise that has settled, either way.\<close>

definition settled :: "'a promise \<Rightarrow> bool" where
  "settled p = (case p of Pending \<Rightarrow> False | _ \<Rightarrow> True)"

text \<open>
  Of a store call: it answered and the answer carries an error (\<open>if (error)\<close> is
  taken); and the data the code takes from a store call it waits for under a timer,
  which is the answer's data when it answered without an error and nothing otherwise.
\<close>

definition has_error :: "'a postgrest_response promise \<Rightarrow> bool" where
  "has_error p = (case p of Fulfilled r \<Rightarrow> res_error r \<noteq> None | _ \<Rightarrow> False)"

definition row_of :: "'a postgrest_response promise \<Rightarrow> 'a option" where
  "row_of p =
     (case p of
        Fulfilled r \<Rightarrow> if res_error r \<noteq> None then None else res_data r
      | _ \<Rightarrow> None)"

text \<open>Requests sent to the identity provider and to the store (table \<open>USER_TABLE\<close>).\<close>

datatype request =
    AuthSignUp string string string string
  | AuthSignInWithPassword string string
  | AuthSignOut
  | AuthGetSession
  | SelectLimit1
  | InsertRow User
  | SelectByEmail string
  | UpdateLastLogin js_id string
  | DeleteByUserId js_id

text \<open>
  The three \<open>useState\<close> cells of \<open>AuthProvider\<close>, and a ghost log \<open>issued\<close> of the
  requests sent so far, each with the cache contents at the moment it was sent. The
  cache is a \<open>Map\<close> from emails to whatever \<open>data\<close> was stored, which can be null.
  \<open>cached c mail\<close> is the test the code makes before it uses an entry:
  \<open>c.has(mail)\<close> and \<open>c.get(mail)\<close> is truthy.
\<close>

type_synonym cache = "string \<rightharpoonup> User option"

record auth_state =
  user :: "User option"
  loading :: bool
  userCache :: cache
  issued :: "(request \<times> cache) list"

definition cached :: "cache \<Rightarrow> string \<Rightarrow> User option" where
  "cached c mail = (case c mail of Some (Some cachedUser) \<Rightarrow> Some cachedUser | _ \<Rightarrow> None)"

definition initialState :: auth_state where
  "initialState = \<lparr>user = None, loading = True, userCache = Map.empty, issued = []\<rparr>"

record login_result =
  error :: "string option"

record register_result = login_result +
  success :: "string option"

text \<open>
  The outcome of every external call of one operation, and the clock readings of
  \<open>new Date().toISOString()\<close>. No operation calls the same endpoint twice.
\<close>

record env =
  signUp :: "auth_response promise"
  signInWithPassword :: "auth_response promise"
  signOut :: "auth_error option promise"
  getSession :: "auth_user option promise"
  selectLimit1 :: "User list postgrest_response promise"
  insertRow :: "User postgrest_response promise"
  selectByEmail :: "User postgrest_response promise"
  updateRow :: "unit postgrest_response promise"
  deleteRow :: "unit postgrest_response promise"
  ts_last_session_refresh :: string
  ts_created_at :: string
  ts_updated_at :: string
  ts_last_login :: string

section \<open>Async control flow\<close>

text \<open>
  An async function is a state transformer that ends fulfilled, rejected (an exception
  escapes) or pending. \<open>bnd\<close> is sequencing, \<open>try_catch\<close> and \<open>try_finally\<close> are the
  statements of the same name; neither handles a pending computation, whose
  continuation has not run.
\<close>

type_synonym 'a async = "auth_state \<Rightarrow> 'a promise \<times> auth_state"

definition ret :: "'a \<Rightarrow> 'a async" where
  "ret x s = (Fulfilled x, s)"

definition bnd :: "'a async \<Rightarrow> ('a \<Rightarrow> 'b async) \<Rightarrow> 'b async" where
  "bnd m f s =
     (case m s of
        (Fulfilled x, s') \<Rightarrow> f x s'
      | (Rejected e, s') \<Rightarrow> (Rejected e, s')
      | (Pending, s') \<Rightarrow> (Pending, s'))"

definition try_catch :: "'a async \<Rightarrow> (string \<Rightarrow> 'a async) \<Rightarrow> 'a async" where
  "try_catch m h s =
     (case m s of
        (Rejected e, s') \<Rightarrow> h e s'
      | r \<Rightarrow> r)"

definition try_finally :: "'a async \<Rightarrow> unit async \<Rightarrow> 'a async" where
  "try_finally m f s =
     (case m s of
        (Pending, s') \<Rightarrow> (Pending, s')
      | (r, s') \<Rightarrow>
          (case f s' of
             (Fulfilled _, s'') \<Rightarrow> (r, s'')
           | (Rejected e, s'') \<Rightarrow> (Rejected e, s'')
           | (Pending, s'') \<Rightarrow> (Pending, s'')))"

text \<open>\<open>await p\<close> of an external call: the request goes out, then the promise decides.\<close>

definition await :: "request \<Rightarrow> 'a promise \<Rightarrow> 'a async" where
  "await rq p s = (p, s\<lparr>issued := issued s @ [(rq, userCache s)]\<rparr>)"

text \<open>
  \<open>await Promise.race([p, timeoutPromise])\<close> where the timer rejects with
  \<open>new Error(msg)\<close>: a promise still pending when the timer fires loses the race.
  \<open>outer\<close> says that the caller is itself inside a \<open>Promise.race\<close> against a timer
  of the same duration that was started earlier (login's user setup, register's user
  creation): that timer fires first, so the wait is still pending when the caller's
  race is decided.
\<close>

definition await_race :: "bool \<Rightarrow> request \<Rightarrow> 'a promise \<Rightarrow> string \<Rightarrow> 'a async" where
  "await_race outer rq p msg s =
     (case p of
        Pending \<Rightarrow> if outer then Pending else Rejected msg
      | Fulfilled x \<Rightarrow> Fulfilled x
      | Rejected e \<Rightarrow> Rejected e,
      s\<lparr>issued := issued s @ [(rq, userCache s)]\<rparr>)"

text \<open>
  \<open>Promise.race([m, timeoutPromise])\<close> over an async function of the context. The
  state returned is the state when the race is decided; what the loser still does
  afterwards is not part of the operation.
\<close>

definition race :: "'a async \<Rightarrow> string \<Rightarrow> 'a async" where
  "race m msg s =
     (case m s of
        (Pending, s') \<Rightarrow> (Rejected msg, s')
      | r \<Rightarrow> r)"

text \<open>A call whose promise is dropped (not awaited): its effects happen, its result is lost.\<close>

definition fire_and_forget :: "'a async \<Rightarrow> unit async" where
  "fire_and_forget m s = (Fulfilled (), snd (m s))"

definition setUser :: "User option \<Rightarrow> unit async" where
  "setUser u s = (Fulfilled (), s\<lparr>user := u\<rparr>)"

definition setLoading :: "bool \<Rightarrow> unit async" where
  "setLoading b s = (Fulfilled (), s\<lparr>loading := b\<rparr>)"

text \<open>\<open>setUserCache(prev => f(prev))\<close>, a functional update of the current cache.\<close>

definition setUserCache :: "(cache \<Rightarrow> cache) \<Rightarrow> unit async" where
  "setUserCache f s = (Fulfilled (), s\<lparr>userCache := f (userCache s)\<rparr>)"

named_theorems async_defs

lemmas async_combinators [async_defs] =
  ret_def bnd_def try_catch_def try_finally_def await_def await_race_def race_def
  fire_and_forget_def setUser_def setLoading_def setUserCache_def

section \<open>String helpers of the error analysis\<close>

text \<open>
  \<open>toLowerCase\<close> on the letters A to Z; the patterns searched for are ASCII, so no
  other character can come to match them.
\<close>

definition toLowerCase :: "string \<Rightarrow> string" where
  "toLowerCase =
     map (\<lambda>c. let n = (of_char c :: nat) in if 65 \<le> n \<and> n \<le> 90 then char_of (n + 32) else c)"

text \<open>\<open>s.includes(pat)\<close>: \<open>pat\<close> occurs in \<open>s\<close> as a contiguous piece.\<close>

fun includes_str :: "string \<Rightarrow> string \<Rightarrow> bool" where
  "includes_str [] pat = (pat = [])"
| "includes_str (c # cs) pat = (take (length pat) (c # cs) = pat \<or> includes_str cs pat)"

text \<open>\<open>x || ''\<close> on an optional string.\<close>

definition or_empty :: "string option \<Rightarrow> string" where
  "or_empty x = (case x of None \<Rightarrow> [] | Some e \<Rightarrow> e)"

section \<open>The functions of the provider\<close>

text \<open>
  \<open>createUserInCustomTable\<close> (lines 35-115). The table check's own try/catch swallows a
  rejection and goes on to the insert; only an error response returns null early
  (\<open>Some None\<close> below is that early return). After the insert only \<open>error\<close> is
  tested: \<open>data\<close> is cached and returned as it is, null included.
\<close>

definition userData :: "auth_user \<Rightarrow> string \<Rightarrow> string \<Rightarrow> env \<Rightarrow> User" where
  "userData authUser firstName lastName E =
     \<lparr>user_id = IdString (auth_id authUser),
      first_name = firstName,
      last_name = lastName,
      email = or_empty (auth_email authUser),
      password_hash = [],
      last_session_refresh = ts_last_session_refresh E,
      is_paid = False,
      created_at = ts_created_at E,
      updated_at = ts_updated_at E\<rparr>"

definition createUserInCustomTable ::
  "bool \<Rightarrow> auth_user \<Rightarrow> string \<Rightarrow> string \<Rightarrow> env \<Rightarrow> User option async" where
  "createUserInCustomTable outer authUser firstName lastName E =
     try_catch
       (bnd
          (try_catch
             (bnd (await SelectLimit1 (selectLimit1 E))
                (\<lambda>r. if res_error r \<noteq> None then ret (Some None) else ret None))
             (\<lambda>tableCheckError. ret None))
          (\<lambda>early. case early of
             Some v \<Rightarrow> ret v
           | None \<Rightarrow>
               bnd (await_race outer (InsertRow (userData authUser firstName lastName E))
                      (insertRow E) ''Database timeout'')
                 (\<lambda>r. if res_error r \<noteq> None then ret None
                      else
                        bnd (setUserCache
                               (\<lambda>prev. prev(or_empty (auth_email authUser) \<mapsto> res_data r)))
                          (\<lambda>_. ret (res_data r)))))
       (\<lambda>err. ret None)"

text \<open>
  \<open>getUserFromCustomTable\<close> (lines 118-164). \<open>snap\<close> is the \<open>userCache\<close> the closure
  captured when the component rendered: the cache test reads it, not the current cell.
\<close>

definition getUserFromCustomTable ::
  "bool \<Rightarrow> cache \<Rightarrow> string \<Rightarrow> env \<Rightarrow> User option async" where
  "getUserFromCustomTable outer snap mail E =
     try_catch
       (case cached snap mail of
          Some cachedUser \<Rightarrow> ret (Some cachedUser)
        | None \<Rightarrow>
            bnd (await_race outer (SelectByEmail mail) (selectByEmail E) ''Database timeout'')
              (\<lambda>r. if res_error r \<noteq> None then ret None
                   else
                     bnd (setUserCache (\<lambda>prev. prev(mail \<mapsto> res_data r)))
                       (\<lambda>_. ret (res_data r))))
       (\<lambda>err. ret None)"

text \<open>\<open>updateLastLogin\<close> (lines 213-238).\<close>

definition updateLastLogin :: "js_id \<Rightarrow> env \<Rightarrow> bool async" where
  "updateLastLogin userId E =
     try_catch
       (bnd (await (UpdateLastLogin userId (ts_last_login E)) (updateRow E))
          (\<lambda>r. if res_error r \<noteq> None then ret False else ret True))
       (\<lambda>err. ret False)"

text \<open>\<open>clearStaleCache\<close> (lines 605-617): \<open>if (email)\<close> is false for undefined and for ''.\<close>

definition clearStaleCache :: "string option \<Rightarrow> unit async" where
  "clearStaleCache mail =
     (case mail of
        Some e \<Rightarrow>
          if e \<noteq> [] then setUserCache (\<lambda>prev. prev(e := None))
          else setUserCache (\<lambda>_. Map.empty)
      | None \<Rightarrow> setUserCache (\<lambda>_. Map.empty))"

text \<open>\<open>checkUser\<close> (lines 242-264), the session check of the mount effect.\<close>

definition checkUser :: "env \<Rightarrow> unit async" where
  "checkUser E s =
     try_finally
       (try_catch
          (bnd (await_race False AuthGetSession (getSession E) ''Session check timeout'')
             (\<lambda>session. case session of
                None \<Rightarrow> ret ()
              | Some sessionUser \<Rightarrow>
                  bnd (getUserFromCustomTable False (userCache s)
                         (or_empty (auth_email sessionUser)) E)
                    (\<lambda>customUser. case customUser of
                       Some cu \<Rightarrow> setUser (Some cu)
                     | None \<Rightarrow> ret ())))
          (\<lambda>err. ret ()))
       (setLoading False) s"

text \<open>\<open>logout\<close> (lines 591-602).\<close>

definition logout :: "env \<Rightarrow> unit async" where
  "logout E =
     try_catch
       (bnd (await AuthSignOut (signOut E))
          (\<lambda>_. bnd (setUser None) (\<lambda>_. setUserCache (\<lambda>_. Map.empty))))
       (\<lambda>err. ret ())"

text \<open>
  \<open>login\<close> (lines 312-399). \<open>userSetup\<close> is the async arrow \<open>userSetupPromise\<close>
  (lines 348-378); it runs inside the race against \<open>userSetupTimeout\<close>. The test of
  \<open>email_confirmed_at\<close> (lines 341-344) only writes to the console: its \<open>return\<close> is
  commented out.
\<close>

definition console_warn :: "unit async" where
  "console_warn = ret ()"

definition userSetup :: "cache \<Rightarrow> env \<Rightarrow> unit async" where
  "userSetup snap E =
     bnd (await AuthGetSession (getSession E))
       (\<lambda>session. case session of
          None \<Rightarrow> ret ()
        | Some sessionUser \<Rightarrow>
            (case cached snap (or_empty (auth_email sessionUser)) of
               Some cachedUser \<Rightarrow>
                 bnd (setUser (Some cachedUser))
                   (\<lambda>_. fire_and_forget (updateLastLogin (user_id cachedUser) E))
             | None \<Rightarrow>
                 bnd (getUserFromCustomTable True snap (or_empty (auth_email sessionUser)) E)
                   (\<lambda>customUser. case customUser of
                      Some cu \<Rightarrow>
                        bnd (setUser (Some cu))
                          (\<lambda>_. fire_and_forget (updateLastLogin (user_id cu) E))
                    | None \<Rightarrow> clearStaleCache (auth_email sessionUser))))"

definition login :: "string \<Rightarrow> string \<Rightarrow> env \<Rightarrow> login_result async" where
  "login mail password E s =
     try_catch
       (bnd (await_race False (AuthSignInWithPassword mail password)
               (signInWithPassword E) ''Authentication timeout'')
          (\<lambda>result. case result of
             AuthError e \<Rightarrow> ret \<lparr>error = Some (message e)\<rparr>
           | AuthData dataUser \<Rightarrow>
               bnd (case dataUser of
                      Some u \<Rightarrow> if email_confirmed_at u = None then console_warn else ret ()
                    | None \<Rightarrow> ret ())
                 (\<lambda>_. bnd (try_catch (race (userSetup (userCache s) E) ''User setup timeout'')
                             (\<lambda>setupError. ret ()))
                    (\<lambda>_. ret \<lparr>error = None\<rparr>))))
       (\<lambda>err. if err = ''Authentication timeout''
              then ret \<lparr>error = Some ''Authentication is taking too long. Please try again.''\<rparr>
              else ret \<lparr>error = Some ''An unexpected error occurred''\<rparr>) s"

text \<open>
  \<open>register\<close> (lines 401-589). \<open>alreadyExists\<close> is the condition of lines 447-452,
  \<open>recovery\<close> the block of lines 457-495 and \<open>createProfile\<close> the block of lines
  525-573; each of the two blocks yields \<open>Some r\<close> where the source executes
  \<open>return r\<close> and \<open>None\<close> where it falls through.
\<close>

definition alreadyExists :: "auth_error \<Rightarrow> bool" where
  "alreadyExists e \<longleftrightarrow>
     code e = Some ''user_already_exists'' \<or>
     includes_str (toLowerCase (message e)) ''already registered'' \<or>
     includes_str (toLowerCase (message e)) ''already exists'' \<or>
     includes_str (toLowerCase (message e)) ''already been registered'' \<or>
     includes_str (toLowerCase (message e)) ''user already exists'' \<or>
     includes_str (toLowerCase (message e)) ''email already in use''"

definition recovery ::
  "string \<Rightarrow> string \<Rightarrow> string \<Rightarrow> string \<Rightarrow> cache \<Rightarrow> env
     \<Rightarrow> register_result option async" where
  "recovery firstName lastName mail password snap E =
     try_catch
       (bnd (await (AuthSignInWithPassword mail password) (signInWithPassword E))
          (\<lambda>r. case r of
             AuthError signInError \<Rightarrow>
               ret (Some \<lparr>error = Some ''User already exists, please login'', success = None\<rparr>)
           | AuthData None \<Rightarrow> ret None
           | AuthData (Some signInUser) \<Rightarrow>
               bnd (getUserFromCustomTable False snap mail E)
                 (\<lambda>existingCustomUser. case existingCustomUser of
                    Some _ \<Rightarrow>
                      ret (Some \<lparr>error = None,
                                 success = Some ''User already exists, please login''\<rparr>)
                  | None \<Rightarrow>
                      bnd (createUserInCustomTable False signInUser firstName lastName E)
                        (\<lambda>customUser. case customUser of
                           Some _ \<Rightarrow>
                             ret (Some \<lparr>error = None,
                                        success = Some ''User setup completed, please login''\<rparr>)
                         | None \<Rightarrow>
                             ret (Some \<lparr>error = Some
                                    ''User exists but profile setup failed. Please contact support.'',
                                        success = None\<rparr>)))))
       (\<lambda>recoveryError.
          ret (Some \<lparr>error = Some ''User already exists, please login'', success = None\<rparr>))"

definition createProfile ::
  "auth_user \<Rightarrow> string \<Rightarrow> string \<Rightarrow> env \<Rightarrow> register_result option async" where
  "createProfile dataUser firstName lastName E =
     try_catch
       (bnd (race (createUserInCustomTable True dataUser firstName lastName E)
               ''User creation timeout'')
          (\<lambda>customUser. case customUser of
             None \<Rightarrow>
               ret (Some \<lparr>error = Some ''Failed to create user profile. Please try again.'',
                          success = None\<rparr>)
           | Some cu \<Rightarrow>
               if user_id cu \<noteq> IdString (auth_id dataUser) then
                 bnd (try_catch
                        (bnd (await (DeleteByUserId (user_id cu)) (deleteRow E)) (\<lambda>_. ret ()))
                        (\<lambda>cleanupError. ret ()))
                   (\<lambda>_. ret (Some \<lparr>error = Some
                                ''User profile creation failed. Please try again.'',
                                    success = None\<rparr>))
               else ret None))
       (\<lambda>creationError.
          if creationError = ''User creation timeout''
          then ret (Some \<lparr>error = Some ''Registration timed out. Please try again.'',
                          success = None\<rparr>)
          else ret (Some \<lparr>error = Some ''Failed to create user profile. Please try again.'',
                          success = None\<rparr>))"

definition register ::
  "string \<Rightarrow> string \<Rightarrow> string \<Rightarrow> string \<Rightarrow> env \<Rightarrow> register_result async" where
  "register firstName lastName mail password E s =
     try_catch
       (bnd (setUserCache (\<lambda>prev. prev(mail := None)))
          (\<lambda>_. bnd (await_race False (AuthSignUp mail password firstName lastName)
                      (signUp E) ''Signup timeout'')
             (\<lambda>r. case r of
                AuthError signUpError \<Rightarrow>
                  if code signUpError = Some ''email_address_invalid'' then
                    ret \<lparr>error = Some
                      ''Email address format is not accepted. Please use a different email address.'',
                         success = None\<rparr>
                  else
                    bnd (if alreadyExists signUpError
                         then recovery firstName lastName mail password (userCache s) E
                         else ret None)
                      (\<lambda>early. case early of
                         Some v \<Rightarrow> ret v
                       | None \<Rightarrow>
                           if code signUpError = Some ''weak_password'' then
                             ret \<lparr>error = Some
                               ''Password is too weak. Please use a stronger password.'',
                                  success = None\<rparr>
                           else if code signUpError = Some ''invalid_email'' then
                             ret \<lparr>error = Some
                               ''Email address format is invalid. Please check your email address.'',
                                  success = None\<rparr>
                           else ret \<lparr>error = Some (message signUpError), success = None\<rparr>)
              | AuthData None \<Rightarrow>
                  ret \<lparr>error = Some ''User registration failed. Please try again.'',
                       success = None\<rparr>
              | AuthData (Some dataUser) \<Rightarrow>
                  bnd (createProfile dataUser firstName lastName E)
                    (\<lambda>early. case early of
                       Some v \<Rightarrow> ret v
                     | None \<Rightarrow>
                         ret \<lparr>error = None,
                              success = Some ''User registered, please login''\<rparr>))))
       (\<lambda>err.
          if err = ''Signup timeout'' then
            ret \<lparr>error = Some ''Registration is taking too long. Please try again.'',
                 success = None\<rparr>
          else if err = ''User creation timeout'' then
            ret \<lparr>error = Some
              ''Registration successful but user setup is taking too long. Please try logging in manually.'',
                 success = None\<rparr>
          else ret \<lparr>error = Some ''An unexpected error occurred'', success = None\<rparr>) s"

text \<open>
  The handler given to \<open>onAuthStateChange\<close> (lines 270-306), called with the user of
  the session of the event (absent when there is no session). Its timer \<open>fetchTimeout\<close>
  is started before \<open>getUserFromCustomTable\<close> is called. \<open>Some ()\<close> is the early
  \<open>return\<close> of the cached path.
\<close>

definition onAuthStateChange :: "auth_user option \<Rightarrow> env \<Rightarrow> unit async" where
  "onAuthStateChange session E s =
     bnd (case session of
            Some sessionUser \<Rightarrow>
              (case cached (userCache s) (or_empty (auth_email sessionUser)) of
                 Some cachedUser \<Rightarrow>
                   bnd (setUser (Some cachedUser))
                     (\<lambda>_. bnd (fire_and_forget (updateLastLogin (user_id cachedUser) E))
                        (\<lambda>_. bnd (setLoading False) (\<lambda>_. ret (Some ()))))
               | None \<Rightarrow>
                   bnd (try_catch
                          (bnd (race (getUserFromCustomTable True (userCache s)
                                        (or_empty (auth_email sessionUser)) E)
                                  ''User fetch timeout'')
                             (\<lambda>customUser. case customUser of
                                Some cu \<Rightarrow>
                                  bnd (setUser (Some cu))
                                    (\<lambda>_. fire_and_forget (updateLastLogin (user_id cu) E))
                              | None \<Rightarrow> ret ()))
                          (\<lambda>fetchError. ret ()))
                     (\<lambda>_. ret None))
          | None \<Rightarrow> bnd (setUser None) (\<lambda>_. ret None))
       (\<lambda>early. case early of
          Some v \<Rightarrow> ret v
        | None \<Rightarrow> setLoading False) s"

text \<open>\<open>debugAuthState\<close> (lines 620-661); it too resolves the profile, and so can cache.\<close>

datatype debug_result = DebugState bool bool bool | DebugError string

definition debugAuthState :: "string \<Rightarrow> env \<Rightarrow> debug_result async" where
  "debugAuthState mail E s =
     try_catch
       (bnd (await AuthGetSession (getSession E))
          (\<lambda>session. bnd (getUserFromCustomTable False (userCache s) mail E)
             (\<lambda>customUser.
                ret (DebugState (session \<noteq> None) (customUser \<noteq> None)
                       (cached (userCache s) mail \<noteq> None)))))
       (\<lambda>err. ret (DebugError err)) s"

section \<open>Runs of the provider\<close>

text \<open>
  The operations that read or write the provider's state, and a run: one operation
  after the other, each with the outcomes of its own external calls, each started with
  the cache of the state it finds.
\<close>

datatype op =
    CheckUser
  | AuthStateChange "auth_user option"
  | Login string string
  | Register string string string string
  | Logout
  | ClearStaleCache "string option"
  | DebugAuthState string

fun exec :: "op \<Rightarrow> env \<Rightarrow> auth_state \<Rightarrow> auth_state" where
  "exec CheckUser E s = snd (checkUser E s)"
| "exec (AuthStateChange session) E s = snd (onAuthStateChange session E s)"
| "exec (Login mail password) E s = snd (login mail password E s)"
| "exec (Register firstName lastName mail password) E s =
     snd (register firstName lastName mail password E s)"
| "exec Logout E s = snd (logout E s)"
| "exec (ClearStaleCache mail) E s = snd (clearStaleCache mail s)"
| "exec (DebugAuthState mail) E s = snd (debugAuthState mail E s)"

fun run :: "(op \<times> env) list \<Rightarrow> auth_state \<Rightarrow> auth_state" where
  "run [] s = s"
| "run (step # rest) s = run rest (exec (fst step) (snd step) s)"

text \<open>
  The cache entry that the store's answer to a request vouches for: for a select by
  email answered without an error, that email with the answer's data; for an insert
  answered without an error, the email of the inserted profile with the answer's data.
  \<open>sent s s'\<close> are the requests sent between two states, and \<open>provenance\<close> collects
  the entries vouched for along a run.
\<close>

fun answered :: "env \<Rightarrow> request \<Rightarrow> (string \<times> User option) list" where
  "answered E (SelectByEmail mail) =
     (case selectByEmail E of
        Fulfilled r \<Rightarrow> if res_error r \<noteq> None then [] else [(mail, res_data r)]
      | _ \<Rightarrow> [])"
| "answered E (InsertRow profile) =
     (case insertRow E of
        Fulfilled r \<Rightarrow> if res_error r \<noteq> None then [] else [(email profile, res_data r)]
      | _ \<Rightarrow> [])"
| "answered E _ = []"

definition justified :: "env \<Rightarrow> request list \<Rightarrow> (string \<times> User option) list" where
  "justified E rqs = concat (map (answered E) rqs)"

definition sent :: "auth_state \<Rightarrow> auth_state \<Rightarrow> request list" where
  "sent s s' = map fst (drop (length (issued s)) (issued s'))"

fun provenance :: "(op \<times> env) list \<Rightarrow> auth_state \<Rightarrow> (string \<times> User option) list" where
  "provenance [] s = []"
| "provenance (step # rest) s =
     justified (snd step) (sent s (exec (fst step) (snd step) s)) @
     provenance rest (exec (fst step) (snd step) s)"

text \<open>
  One step keeps the cache vouched for: the log has only grown, and every entry of the
  cache was there before or is vouched for by an answer to a request sent meanwhile.
\<close>

definition vouched :: "env \<Rightarrow> auth_state \<Rightarrow> auth_state \<Rightarrow> bool" where
  "vouched E s s' \<longleftrightarrow>
     prefix (issued s) (issued s') \<and>
     (\<forall>k v. userCache s' k = Some v \<longrightarrow>
        userCache s k = Some v \<or> (k, v) \<in> set (justified E (sent s s')))"

text \<open>The number of profile queries (select by email) among the requests sent so far.\<close>

definition storeQueries :: "auth_state \<Rightarrow> nat" where
  "storeQueries s =
     length (filter (\<lambda>x. case fst x of SelectByEmail _ \<Rightarrow> True | _ \<Rightarrow> False) (issued s))"

section \<open>Concrete inputs\<close>

text \<open>
  Two profile rows, the identity the first belongs to (its email not confirmed), states
  in which that user is signed in and cached, and an environment in which no call has
  settled; the examples below override the calls they need.
\<close>

definition jane :: User where
  "jane =
     \<lparr>user_id = IdString ''u-1'', first_name = ''Jane'', last_name = ''Doe'',
      email = ''jane@x.com'', password_hash = [], last_session_refresh = ''t0'',
      is_paid = False, created_at = ''t0'', updated_at = ''t0''\<rparr>"

definition bob :: User where
  "bob =
     \<lparr>user_id = IdString ''u-2'', first_name = ''Bob'', last_name = ''Roe'',
      email = ''bob@x.com'', password_hash = [], last_session_refresh = ''t0'',
      is_paid = True, created_at = ''t0'', updated_at = ''t0''\<rparr>"

definition jane_auth :: auth_user where
  "jane_auth =
     \<lparr>auth_id = ''u-1'', auth_email = Some ''jane@x.com'', email_confirmed_at = None\<rparr>"

definition signedIn :: auth_state where
  "signedIn =
     \<lparr>user = Some jane, loading = False, userCache = [''jane@x.com'' \<mapsto> Some jane],
      issued = []\<rparr>"

definition twoCached :: auth_state where
  "twoCached =
     \<lparr>user = Some jane, loading = False,
      userCache = [''jane@x.com'' \<mapsto> Some jane, ''bob@x.com'' \<mapsto> Some bob], issued = []\<rparr>"

definition idle :: env where
  "idle =
     \<lparr>signUp = Pending, signInWithPassword = Pending, signOut = Pending,
      getSession = Pending, selectLimit1 = Pending, insertRow = Pending,
      selectByEmail = Pending, updateRow = Pending, deleteRow = Pending,
      ts_last_session_refresh = ''t1'', ts_created_at = ''t1'', ts_updated_at = ''t1'',
      ts_last_login = ''t2''\<rparr>"

definition already_registered :: auth_error where
  "already_registered =
     \<lparr>code = Some ''user_already_exists'', message = ''User already registered'',
      status = Some 422\<rparr>"

definition invalid_credentials :: auth_error where
  "invalid_credentials =
     \<lparr>code = Some ''invalid_credentials'', message = ''Invalid login credentials'',
      status = Some 400\<rparr>"

definition session_not_found :: auth_error where
  "session_not_found =
     \<lparr>code = Some ''session_not_found'', message = ''Session not found'',
      status = Some 403\<rparr>"

definition no_rows :: pg_error where
  "no_rows =
     \<lparr>pg_message = ''JSON object requested, multiple (or no) rows returned'',
      pg_details = ''The result contains 0 rows'', pg_hint = [], pg_code = ''PGRST116''\<rparr>"

definition rls_violation :: pg_error where
  "rls_violation =
     \<lparr>pg_message = ''new row violates row-level security policy'',
      pg_details = [], pg_hint = [], pg_code = ''42501''\<rparr>"

text \<open>Every call throws (the network is down).\<close>

definition offline :: env where
  "offline =
     idle\<lparr>signUp := Rejected ''Failed to fetch'',
          signInWithPassword := Rejected ''Failed to fetch'',
          signOut := Rejected ''Failed to fetch'',
          getSession := Rejected ''Failed to fetch'',
          selectLimit1 := Rejected ''Failed to fetch'',
          insertRow := Rejected ''Failed to fetch'',
          selectByEmail := Rejected ''Failed to fetch'',
          updateRow := Rejected ''Failed to fetch'',
          deleteRow := Rejected ''Failed to fetch''\<rparr>"

text \<open>
  A second registration of an identity the provider already has: the recovery sign-in
  succeeds and the profile row is found; the sign-in is refused; the row is missing and
  the insert succeeds; the row is missing and the insert is refused.
\<close>

definition second_found :: env where
  "second_found =
     idle\<lparr>signUp := Fulfilled (AuthError already_registered),
          signInWithPassword := Fulfilled (AuthData (Some jane_auth)),
          selectByEmail := Fulfilled (PgData jane)\<rparr>"

definition second_refused :: env where
  "second_refused =
     idle\<lparr>signUp := Fulfilled (AuthError already_registered),
          signInWithPassword := Fulfilled (AuthError invalid_credentials)\<rparr>"

definition second_row_missing :: env where
  "second_row_missing =
     idle\<lparr>signUp := Fulfilled (AuthError already_registered),
          signInWithPassword := Fulfilled (AuthData (Some jane_auth)),
          selectByEmail := Fulfilled (PgError no_rows),
          selectLimit1 := Fulfilled (PgData []),
          insertRow := Fulfilled (PgData jane)\<rparr>"

definition second_insert_refused :: env where
  "second_insert_refused =
     idle\<lparr>signUp := Fulfilled (AuthError already_registered),
          signInWithPassword := Fulfilled (AuthData (Some jane_auth)),
          selectByEmail := Fulfilled (PgError no_rows),
          selectLimit1 := Fulfilled (PgData []),
          insertRow := Fulfilled (PgError rls_violation)\<rparr>"

text \<open>
  A second registration where the recovery sign-in never answers, and one where the
  table check answers with an error (the table cannot be read).
\<close>

definition second_signIn_hangs :: env where
  "second_signIn_hangs = idle\<lparr>signUp := Fulfilled (AuthError already_registered)\<rparr>"

definition second_table_error :: env where
  "second_table_error =
     idle\<lparr>signUp := Fulfilled (AuthError already_registered),
          signInWithPassword := Fulfilled (AuthData (Some jane_auth)),
          selectByEmail := Fulfilled (PgError no_rows),
          selectLimit1 := Fulfilled (PgError rls_violation)\<rparr>"

text \<open>A profile query answered with neither data nor error.\<close>

definition empty_answer :: env where
  "empty_answer = idle\<lparr>selectByEmail := Fulfilled \<lparr>res_data = None, res_error = None\<rparr>\<rparr>"

text \<open>A first registration where the store hands back a row under another id.\<close>

definition id_mismatch :: env where
  "id_mismatch =
     idle\<lparr>signUp := Fulfilled (AuthData (Some jane_auth)),
          selectLimit1 := Fulfilled (PgData []),
          insertRow := Fulfilled (PgData (jane\<lparr>user_id := IdNumber 42\<rparr>)),
          deleteRow := Fulfilled (PgData ())\<rparr>"

section \<open>Facts about the control flow\<close>

text \<open>The request log only grows.\<close>

named_theorems ext_rules

lemma ext_ret [ext_rules]: "prefix (issued s) (issued (snd (ret x s)))"
  by (simp add: ret_def)

lemma ext_await [ext_rules]: "prefix (issued s) (issued (snd (await rq p s)))"
  by (simp add: await_def)

lemma ext_await_race [ext_rules]:
  "prefix (issued s) (issued (snd (await_race outer rq p msg s)))"
  by (simp add: await_race_def)

lemma ext_setUser [ext_rules]: "prefix (issued s) (issued (snd (setUser u s)))"
  by (simp add: setUser_def)

lemma ext_setUserCache [ext_rules]: "prefix (issued s) (issued (snd (setUserCache f s)))"
  by (simp add: setUserCache_def)

lemma pre_bnd:
  assumes "prefix P (issued (snd (m s)))"
      and "\<And>x s'. prefix (issued s') (issued (snd (f x s')))"
  shows "prefix P (issued (snd (bnd m f s)))"
proof (cases "m s")
  case (Pair p s')
  have 1: "prefix P (issued s')" using assms(1) Pair by simp
  show ?thesis
  proof (cases p)
    case (Fulfilled x)
    have "prefix (issued s') (issued (snd (f x s')))" by (rule assms(2))
    with 1 show ?thesis using Pair Fulfilled
      by (auto simp add: bnd_def intro: prefix_order.trans)
  qed (use 1 Pair in \<open>simp_all add: bnd_def\<close>)
qed

lemma pre_try_catch:
  assumes "prefix P (issued (snd (m s)))"
      and "\<And>e s'. prefix (issued s') (issued (snd (h e s')))"
  shows "prefix P (issued (snd (try_catch m h s)))"
proof (cases "m s")
  case (Pair p s')
  have 1: "prefix P (issued s')" using assms(1) Pair by simp
  show ?thesis
  proof (cases p)
    case (Rejected e)
    have "prefix (issued s') (issued (snd (h e s')))" by (rule assms(2))
    with 1 show ?thesis using Pair Rejected
      by (auto simp add: try_catch_def intro: prefix_order.trans)
  qed (use 1 Pair in \<open>simp_all add: try_catch_def\<close>)
qed

lemma ext_bnd [ext_rules]:
  assumes "\<And>s. prefix (issued s) (issued (snd (m s)))"
      and "\<And>x s. prefix (issued s) (issued (snd (f x s)))"
  shows "prefix (issued s) (issued (snd (bnd m f s)))"
  by (rule pre_bnd) (rule assms)+

lemma ext_try_catch [ext_rules]:
  assumes "\<And>s. prefix (issued s) (issued (snd (m s)))"
      and "\<And>e s. prefix (issued s) (issued (snd (h e s)))"
  shows "prefix (issued s) (issued (snd (try_catch m h s)))"
  by (rule pre_try_catch) (rule assms)+

lemma ext_race [ext_rules]:
  assumes "\<And>s. prefix (issued s) (issued (snd (m s)))"
  shows "prefix (issued s) (issued (snd (race m msg s)))"
  using assms [of s] by (auto simp add: race_def split: prod.splits promise.splits)

lemma ext_getUser [ext_rules]:
  "prefix (issued s) (issued (snd (getUserFromCustomTable outer snap mail E s)))"
  unfolding getUserFromCustomTable_def
  by (auto intro!: ext_rules split: option.split)

lemma ext_createUser [ext_rules]:
  "prefix (issued s)
     (issued (snd (createUserInCustomTable outer authUser firstName lastName E s)))"
  unfolding createUserInCustomTable_def
  by (auto intro!: ext_rules split: option.split)

lemma ext_recovery [ext_rules]:
  "prefix (issued s) (issued (snd (recovery firstName lastName mail password snap E s)))"
  unfolding recovery_def
  by (auto intro!: ext_rules split: option.split auth_response.split)

lemma ext_createProfile [ext_rules]:
  "prefix (issued s) (issued (snd (createProfile dataUser firstName lastName E s)))"
  unfolding createProfile_def
  by (auto intro!: ext_rules split: option.split)

text \<open>Where every wait is bounded or settles, the computation settles.\<close>

named_theorems np_rules

lemma np_ret [np_rules]: "settled (fst (ret x s))"
  by (simp add: ret_def settled_def)

lemma np_await [np_rules]: "settled p \<Longrightarrow> settled (fst (await rq p s))"
  by (simp add: await_def)

lemma np_await_race [np_rules]: "settled (fst (await_race False rq p msg s))"
  by (simp add: await_race_def settled_def split: promise.splits)

lemma np_setUserCache [np_rules]: "settled (fst (setUserCache f s))"
  by (simp add: setUserCache_def settled_def)

lemma np_race [np_rules]: "settled (fst (race m msg s))"
  by (simp add: race_def settled_def split: prod.splits promise.splits)

lemma np_bnd [np_rules]:
  assumes "\<And>s. settled (fst (m s))" and "\<And>x s. settled (fst (f x s))"
  shows "settled (fst (bnd m f s))"
proof (cases "m s")
  case (Pair p s')
  show ?thesis
  proof (cases p)
    case (Fulfilled x)
    then show ?thesis using Pair assms(2) [of x s'] by (simp add: bnd_def)
  next
    case (Rejected e)
    then show ?thesis using Pair by (simp add: bnd_def settled_def)
  next
    case Pending
    then show ?thesis using Pair assms(1) [of s] by (simp add: settled_def)
  qed
qed

lemma np_try_catch [np_rules]:
  assumes "\<And>s. settled (fst (m s))" and "\<And>e s. settled (fst (h e s))"
  shows "settled (fst (try_catch m h s))"
proof (cases "m s")
  case (Pair p s')
  show ?thesis
  proof (cases p)
    case (Fulfilled x)
    then show ?thesis using Pair by (simp add: try_catch_def settled_def)
  next
    case (Rejected e)
    then show ?thesis using Pair assms(2) [of e s'] by (simp add: try_catch_def)
  next
    case Pending
    then show ?thesis using Pair assms(1) [of s] by (simp add: settled_def)
  qed
qed

lemma np_getUser [np_rules]:
  "settled (fst (getUserFromCustomTable False snap mail E s))"
  unfolding getUserFromCustomTable_def
  by (auto intro!: np_rules split: option.split)

lemma np_createUser [np_rules]:
  "settled (selectLimit1 E) \<Longrightarrow>
   settled (fst (createUserInCustomTable False authUser firstName lastName E s))"
  unfolding createUserInCustomTable_def
  by (auto intro!: np_rules split: option.split)

lemma np_recovery [np_rules]:
  "settled (signInWithPassword E) \<Longrightarrow> settled (selectLimit1 E) \<Longrightarrow>
   settled (fst (recovery firstName lastName mail password snap E s))"
  unfolding recovery_def
  by (auto intro!: np_rules split: option.split auth_response.split)

lemma np_createProfile [np_rules]:
  "settled (deleteRow E) \<Longrightarrow> settled (fst (createProfile dataUser firstName lastName E s))"
  unfolding createProfile_def
  by (auto intro!: np_rules split: option.split)

text \<open>A try/catch whose handler returns lets no exception out.\<close>

lemma try_catch_not_rejected:
  assumes "\<And>e s. \<exists>r. fst (h e s) = Fulfilled r"
  shows "fst (try_catch m h s) \<noteq> Rejected e'"
proof (cases "m s")
  case (Pair p s')
  show ?thesis
  proof (cases p)
    case (Rejected e)
    from assms [of e s'] obtain r where "fst (h e s') = Fulfilled r" ..
    then show ?thesis using Pair Rejected by (simp add: try_catch_def)
  qed (use Pair in \<open>simp_all add: try_catch_def\<close>)
qed

lemma bnd_setUserCache:
  "bnd (setUserCache f) g s = g () (s\<lparr>userCache := f (userCache s)\<rparr>)"
  by (simp add: bnd_def setUserCache_def)

section \<open>Facts about the two store helpers\<close>

lemma getUser_hit:
  "cached snap mail = Some u \<Longrightarrow>
   getUserFromCustomTable outer snap mail E s = (Fulfilled (Some u), s)"
  by (simp add: getUserFromCustomTable_def async_defs)

lemma getUser_miss_answer:
  "cached snap mail = None \<Longrightarrow> selectByEmail E = Fulfilled r \<Longrightarrow> res_error r = None \<Longrightarrow>
   getUserFromCustomTable outer snap mail E s =
     (Fulfilled (res_data r),
      s\<lparr>issued := issued s @ [(SelectByEmail mail, userCache s)],
        userCache := (userCache s)(mail \<mapsto> res_data r)\<rparr>)"
  by (simp add: getUserFromCustomTable_def async_defs)

lemma getUser_finds_nothing:
  assumes "cached snap mail = None"
      and "\<forall>r. selectByEmail E = Fulfilled r \<longrightarrow> res_error r \<noteq> None"
  shows "getUserFromCustomTable False snap mail E s =
           (Fulfilled None, s\<lparr>issued := issued s @ [(SelectByEmail mail, userCache s)]\<rparr>)"
  using assms
  by (cases "selectByEmail E") (auto simp add: getUserFromCustomTable_def async_defs)

lemma getUser_resolves:
  assumes "cached snap mail = Some u \<or> selectByEmail E = Fulfilled (PgData u)"
  shows "\<exists>u'. getUserFromCustomTable outer snap mail E s =
           (Fulfilled (Some u'),
            if cached snap mail = None
            then s\<lparr>issued := issued s @ [(SelectByEmail mail, userCache s)],
                   userCache := (userCache s)(mail \<mapsto> Some u)\<rparr>
            else s)"
  using assms
  by (auto simp add: getUserFromCustomTable_def async_defs)

lemma getUser_no_row:
  assumes "cached snap mail = None" and "row_of (selectByEmail E) = None"
  shows "fst (getUserFromCustomTable False snap mail E s) = Fulfilled None \<and>
         map fst (issued (snd (getUserFromCustomTable False snap mail E s))) =
           map fst (issued s) @ [SelectByEmail mail]"
  using assms
  by (cases "selectByEmail E")
     (auto simp add: getUserFromCustomTable_def async_defs row_of_def split: if_splits)

lemma createUser_returns_row:
  assumes "settled (selectLimit1 E)" and "\<not> has_error (selectLimit1 E)"
      and "insertRow E = Fulfilled (PgData row)"
  shows "createUserInCustomTable outer authUser firstName lastName E s =
           (Fulfilled (Some row),
            s\<lparr>issued := issued s @
                 [(SelectLimit1, userCache s),
                  (InsertRow (userData authUser firstName lastName E), userCache s)],
              userCache := (userCache s)(or_empty (auth_email authUser) \<mapsto> Some row)\<rparr>)"
  using assms
  by (cases "selectLimit1 E")
     (simp_all add: createUserInCustomTable_def async_defs settled_def has_error_def)

lemma createUser_table_error:
  assumes "has_error (selectLimit1 E)"
  shows "createUserInCustomTable outer authUser firstName lastName E s =
           (Fulfilled None, s\<lparr>issued := issued s @ [(SelectLimit1, userCache s)]\<rparr>)"
  using assms
  by (cases "selectLimit1 E")
     (simp_all add: createUserInCustomTable_def async_defs has_error_def)

lemma createUser_no_row:
  assumes "settled (selectLimit1 E)" and "\<not> has_error (selectLimit1 E)"
      and "row_of (insertRow E) = None"
  shows "fst (createUserInCustomTable False authUser firstName lastName E s) = Fulfilled None \<and>
         map fst (issued (snd (createUserInCustomTable False authUser firstName lastName E s))) =
           map fst (issued s) @
             [SelectLimit1, InsertRow (userData authUser firstName lastName E)]"
  using assms
  by (cases "selectLimit1 E"; cases "insertRow E")
     (auto simp add: createUserInCustomTable_def async_defs settled_def has_error_def
        row_of_def split: if_splits)

section \<open>Logout\<close>

text \<open>
  When the sign-out call returns, with or without an error value in its response,
  logout clears the user and the whole cache; when it throws, the catch block only
  logs and nothing is cleared.
\<close>

lemma logout_clears_when_signOut_returns:
  assumes "signOut E = Fulfilled r"
  shows "fst (logout E s) = Fulfilled () \<and>
         user (snd (logout E s)) = None \<and>
         userCache (snd (logout E s)) = Map.empty \<and>
         issued (snd (logout E s)) = issued s @ [(AuthSignOut, userCache s)]"
  using assms by (simp add: logout_def async_defs)

lemma logout_clears_nothing_when_signOut_throws:
  assumes "signOut E = Rejected m"
  shows "logout E s = (Fulfilled (), s\<lparr>issued := issued s @ [(AuthSignOut, userCache s)]\<rparr>)"
  using assms by (simp add: logout_def async_defs)

text \<open>
  C1 (the code departs from the claim). Jane is signed in and cached and the sign-out
  call throws: logout completes without raising, and the user is still set and still
  cached, where the claim has both cleared also when the sign-out fails.
\<close>

theorem logout_keeps_state_when_signOut_throws:
  "fst (logout offline signedIn) = Fulfilled () \<and>
   user (snd (logout offline signedIn)) = Some jane \<and>
   userCache (snd (logout offline signedIn)) ''jane@x.com'' = Some (Some jane)"
  by (simp add: logout_def async_defs offline_def idle_def signedIn_def)

section \<open>Profile resolution\<close>

text \<open>
  C7. \<open>getUserFromCustomTable\<close> looks in the cache first and returns the cached profile
  with no request sent and the state untouched; on a cache miss it queries the store
  and, when the store answers without an error, caches and returns the answer's data;
  when the store answers with an error, throws or does not answer before the timer, it
  returns null and caches nothing; it never throws. Two calls in a row for a cached email
  therefore send at most one profile query (in fact none).
\<close>

theorem getUserFromCustomTable_cache_first:
  "(cached snap mail = Some u \<longrightarrow>
      getUserFromCustomTable outer snap mail E s = (Fulfilled (Some u), s)) \<and>
   (cached snap mail = None \<and> selectByEmail E = Fulfilled r \<and> res_error r = None \<longrightarrow>
      getUserFromCustomTable outer snap mail E s =
        (Fulfilled (res_data r),
         s\<lparr>issued := issued s @ [(SelectByEmail mail, userCache s)],
           userCache := (userCache s)(mail \<mapsto> res_data r)\<rparr>)) \<and>
   (cached snap mail = None \<and> (\<forall>r. selectByEmail E = Fulfilled r \<longrightarrow> res_error r \<noteq> None) \<longrightarrow>
      getUserFromCustomTable False snap mail E s =
        (Fulfilled None, s\<lparr>issued := issued s @ [(SelectByEmail mail, userCache s)]\<rparr>)) \<and>
   (\<forall>m. fst (getUserFromCustomTable outer snap mail E s) \<noteq> Rejected m) \<and>
   (cached snap mail = Some u \<longrightarrow>
      storeQueries (snd (bnd (getUserFromCustomTable outer snap mail E)
                          (\<lambda>_. getUserFromCustomTable outer snap mail E') s))
        \<le> storeQueries s + 1)"
proof (intro conjI impI allI)
  fix m
  show "fst (getUserFromCustomTable outer snap mail E s) \<noteq> Rejected m"
    by (cases "selectByEmail E")
       (simp_all add: getUserFromCustomTable_def async_defs split: option.splits)
next
  assume hit: "cached snap mail = Some u"
  then show "storeQueries (snd (bnd (getUserFromCustomTable outer snap mail E)
                          (\<lambda>_. getUserFromCustomTable outer snap mail E') s))
        \<le> storeQueries s + 1"
    by (simp add: bnd_def getUser_hit)
qed (simp_all add: getUser_hit getUser_miss_answer getUser_finds_nothing)

text \<open>
  A cached email: no request. An empty cache and a row in the store: the row is cached.
  An empty cache and a store that does not answer: null. Two calls for the cached
  email: no profile query.
\<close>

theorem getUserFromCustomTable_cache_first_witness:
  "getUserFromCustomTable False [''jane@x.com'' \<mapsto> Some jane] ''jane@x.com'' idle signedIn
     = (Fulfilled (Some jane), signedIn) \<and>
   fst (getUserFromCustomTable False Map.empty ''jane@x.com''
          (idle\<lparr>selectByEmail := Fulfilled (PgData jane)\<rparr>) initialState)
     = Fulfilled (Some jane) \<and>
   userCache (snd (getUserFromCustomTable False Map.empty ''jane@x.com''
          (idle\<lparr>selectByEmail := Fulfilled (PgData jane)\<rparr>) initialState)) ''jane@x.com''
     = Some (Some jane) \<and>
   fst (getUserFromCustomTable False Map.empty ''jane@x.com'' idle initialState)
     = Fulfilled None \<and>
   storeQueries
     (snd (bnd (getUserFromCustomTable False [''jane@x.com'' \<mapsto> Some jane] ''jane@x.com'' idle)
             (\<lambda>_. getUserFromCustomTable False [''jane@x.com'' \<mapsto> Some jane] ''jane@x.com'' idle)
             signedIn)) = 0"
  using getUserFromCustomTable_cache_first
          [where snap = "[''jane@x.com'' \<mapsto> Some jane]" and mail = "''jane@x.com''"
             and u = jane and outer = False and E = idle and s = signedIn and E' = idle
             and r = "PgData jane"]
        getUserFromCustomTable_cache_first
          [where snap = Map.empty and mail = "''jane@x.com''" and u = jane and outer = False
             and E = "idle\<lparr>selectByEmail := Fulfilled (PgData jane)\<rparr>" and s = initialState
             and E' = idle and r = "PgData jane"]
        getUserFromCustomTable_cache_first
          [where snap = Map.empty and mail = "''jane@x.com''" and u = jane and outer = False
             and E = idle and s = initialState and E' = idle and r = "PgData jane"]
  by (simp add: idle_def storeQueries_def signedIn_def initialState_def bnd_def getUser_hit
      cached_def)

section \<open>Session check at mount\<close>

text \<open>
  C5. \<open>checkUser\<close>, from any state and whatever the session fetch and the profile
  query do (an answer, an error, an exception, no answer before the timer), completes
  without throwing and leaves \<open>loading = false\<close>. Started from the state the provider
  mounts with, it leaves \<open>user\<close> absent in every case but the one where the session
  has a user and the profile query is answered with a row and no error.
\<close>

theorem checkUser_reaches_loading_false:
  "fst (checkUser E s) = Fulfilled () \<and>
   loading (snd (checkUser E s)) = False \<and>
   user (snd (checkUser E initialState)) =
     (case getSession E of
        Fulfilled (Some sessionUser) \<Rightarrow> row_of (selectByEmail E)
      | _ \<Rightarrow> None)"
  by (cases "selectByEmail E")
     (simp_all add: checkUser_def getUserFromCustomTable_def async_defs initialState_def
        cached_def row_of_def split: option.splits promise.splits)

text \<open>The session fetch times out; and: the session is there but the profile query throws.\<close>

theorem checkUser_session_timeout_witness:
  "fst (checkUser idle initialState) = Fulfilled () \<and>
   loading (snd (checkUser idle initialState)) = False \<and>
   user (snd (checkUser idle initialState)) = None \<and>
   loading (snd (checkUser (idle\<lparr>getSession := Fulfilled (Some jane_auth),
                                  selectByEmail := Rejected ''Failed to fetch''\<rparr>)
                   initialState)) = False \<and>
   user (snd (checkUser (idle\<lparr>getSession := Fulfilled (Some jane_auth),
                               selectByEmail := Rejected ''Failed to fetch''\<rparr>)
                initialState)) = None"
  using checkUser_reaches_loading_false [of idle initialState]
        checkUser_reaches_loading_false
          [of "idle\<lparr>getSession := Fulfilled (Some jane_auth),
                     selectByEmail := Rejected ''Failed to fetch''\<rparr>" initialState]
  by (simp add: idle_def row_of_def)

section \<open>Login\<close>

text \<open>
  C8. Whenever the password sign-in comes back without an error, login returns
  \<open>{ error: null }\<close>, whatever user object the response carries: an identity whose
  \<open>email_confirmed_at\<close> is absent is let in like any other.
\<close>

theorem login_ignores_email_confirmation:
  assumes "signInWithPassword E = Fulfilled (AuthData dataUser)"
  shows "fst (login mail password E s) = Fulfilled \<lparr>error = None\<rparr>"
  using assms
  by (cases "selectByEmail E")
     (simp_all add: login_def userSetup_def console_warn_def clearStaleCache_def
        updateLastLogin_def getUserFromCustomTable_def async_defs
        split: option.splits promise.splits)

text \<open>Jane's email is not confirmed; nothing else answers; login still succeeds.\<close>

theorem login_unconfirmed_witness:
  "email_confirmed_at jane_auth = None \<and>
   signInWithPassword (idle\<lparr>signInWithPassword := Fulfilled (AuthData (Some jane_auth))\<rparr>)
     = Fulfilled (AuthData (Some jane_auth)) \<and>
   fst (login ''jane@x.com'' ''Pwd123!''
          (idle\<lparr>signInWithPassword := Fulfilled (AuthData (Some jane_auth))\<rparr>) initialState)
     = Fulfilled \<lparr>error = None\<rparr>"
  using login_ignores_email_confirmation
          [of "idle\<lparr>signInWithPassword := Fulfilled (AuthData (Some jane_auth))\<rparr>"
              "Some jane_auth" "''jane@x.com''" "''Pwd123!''" initialState]
  by (simp add: idle_def jane_auth_def)

section \<open>Every step keeps the cache vouched for\<close>

lemma justified_append: "justified E (xs @ ys) = justified E xs @ justified E ys"
  by (simp add: justified_def)

lemma sent_append: "issued s' = issued s @ new \<Longrightarrow> sent s s' = map fst new"
  by (simp add: sent_def)

lemma vouched_refl: "vouched E s s"
  by (simp add: vouched_def)

lemma vouched_trans:
  assumes "vouched E s s1" and "vouched E s1 s2"
  shows "vouched E s s2"
proof -
  from assms obtain a b where a: "issued s1 = issued s @ a" and b: "issued s2 = issued s1 @ b"
    unfolding vouched_def prefix_def by blast
  then have ab: "issued s2 = issued s @ (a @ b)" by simp
  have j: "justified E (sent s s2) = justified E (sent s s1) @ justified E (sent s1 s2)"
    by (simp add: sent_append [OF a] sent_append [OF b] sent_append [OF ab] justified_append)
  have "userCache s k = Some v \<or> (k, v) \<in> set (justified E (sent s s2))"
    if "userCache s2 k = Some v" for k v
  proof -
    from that assms(2) have
      "userCache s1 k = Some v \<or> (k, v) \<in> set (justified E (sent s1 s2))"
      unfolding vouched_def by blast
    then show ?thesis
    proof
      assume "userCache s1 k = Some v"
      with assms(1) have "userCache s k = Some v \<or> (k, v) \<in> set (justified E (sent s s1))"
        unfolding vouched_def by blast
      then show ?thesis by (auto simp add: j)
    next
      assume "(k, v) \<in> set (justified E (sent s1 s2))"
      then show ?thesis by (simp add: j)
    qed
  qed
  then show ?thesis using ab by (simp add: vouched_def)
qed

named_theorems v_rules

lemma v_ret [v_rules]: "vouched E s (snd (ret x s))"
  by (simp add: ret_def vouched_refl)

lemma v_await [v_rules]: "vouched E s (snd (await rq p s))"
  by (simp add: await_def vouched_def)

lemma v_await_race [v_rules]: "vouched E s (snd (await_race outer rq p msg s))"
  by (simp add: await_race_def vouched_def)

lemma v_setUser [v_rules]: "vouched E s (snd (setUser u s))"
  by (simp add: setUser_def vouched_def)

lemma v_setLoading [v_rules]: "vouched E s (snd (setLoading b s))"
  by (simp add: setLoading_def vouched_def)

lemma v_bnd [v_rules]:
  assumes "\<And>s. vouched E s (snd (m s))" and "\<And>x s. vouched E s (snd (f x s))"
  shows "vouched E s (snd (bnd m f s))"
proof (cases "m s")
  case (Pair p s1)
  have 1: "vouched E s s1" using assms(1) [of s] Pair by simp
  show ?thesis
  proof (cases p)
    case (Fulfilled x)
    have "vouched E s1 (snd (f x s1))" by (rule assms(2))
    with 1 have "vouched E s (snd (f x s1))" by (rule vouched_trans)
    then show ?thesis using Pair Fulfilled by (simp add: bnd_def)
  qed (use 1 Pair in \<open>simp_all add: bnd_def\<close>)
qed

lemma v_try_catch [v_rules]:
  assumes "\<And>s. vouched E s (snd (m s))" and "\<And>e s. vouched E s (snd (h e s))"
  shows "vouched E s (snd (try_catch m h s))"
proof (cases "m s")
  case (Pair p s1)
  have 1: "vouched E s s1" using assms(1) [of s] Pair by simp
  show ?thesis
  proof (cases p)
    case (Rejected e)
    have "vouched E s1 (snd (h e s1))" by (rule assms(2))
    with 1 have "vouched E s (snd (h e s1))" by (rule vouched_trans)
    then show ?thesis using Pair Rejected by (simp add: try_catch_def)
  qed (use 1 Pair in \<open>simp_all add: try_catch_def\<close>)
qed

lemma v_try_finally [v_rules]:
  assumes "\<And>s. vouched E s (snd (m s))" and "\<And>s. vouched E s (snd (f s))"
  shows "vouched E s (snd (try_finally m f s))"
proof (cases "m s")
  case (Pair p s1)
  have 1: "vouched E s s1" using assms(1) [of s] Pair by simp
  have 2: "vouched E s (snd (f s1))"
    using 1 assms(2) [of s1] by (rule vouched_trans)
  show ?thesis
    using 1 2 Pair
    by (cases p; cases "f s1")
       (auto simp add: try_finally_def split: promise.splits)
qed

lemma v_race [v_rules]:
  assumes "\<And>s. vouched E s (snd (m s))"
  shows "vouched E s (snd (race m msg s))"
  using assms [of s] by (auto simp add: race_def split: prod.splits promise.splits)

lemma v_fire_and_forget [v_rules]:
  assumes "\<And>s. vouched E s (snd (m s))"
  shows "vouched E s (snd (fire_and_forget m s))"
  using assms [of s] by (simp add: fire_and_forget_def)

text \<open>Removing entries needs no voucher.\<close>

lemma v_shrink:
  assumes "\<And>c k v. f c k = Some v \<Longrightarrow> c k = Some v"
  shows "vouched E s (snd (setUserCache f s))"
  using assms by (auto simp add: setUserCache_def vouched_def)

lemma v_clearStaleCache [v_rules]: "vouched E s (snd (clearStaleCache mail s))"
  unfolding clearStaleCache_def
  by (auto intro!: v_shrink split: option.split if_splits)

text \<open>
  The one way an entry gets in: a store call answered without an error, and its data
  put under the key its request vouches for.
\<close>

lemma v_store_then_cache:
  assumes "\<And>r. p = Fulfilled r \<Longrightarrow> res_error r = None \<Longrightarrow> answered E rq = [(k, res_data r)]"
  shows "vouched E s
           (snd (bnd (await_race outer rq p msg)
                   (\<lambda>r. if res_error r \<noteq> None then ret None
                        else bnd (setUserCache (\<lambda>prev. prev(k \<mapsto> res_data r)))
                               (\<lambda>_. ret (res_data r))) s))"
proof (cases p)
  case (Fulfilled r)
  show ?thesis
  proof (cases "res_error r = None")
    case True
    with assms [OF Fulfilled] Fulfilled show ?thesis
      by (simp add: async_defs vouched_def sent_def justified_def)
  next
    case False
    with Fulfilled show ?thesis
      by (auto simp add: async_defs vouched_def)
  qed
qed (simp_all add: async_defs vouched_def)

lemma v_getUser [v_rules]:
  "vouched E s (snd (getUserFromCustomTable outer snap mail E s))"
proof (cases "cached snap mail")
  case None
  show ?thesis
    unfolding getUserFromCustomTable_def None option.case
    by (rule v_try_catch, rule v_store_then_cache, simp, rule v_ret)
next
  case (Some cachedUser)
  show ?thesis
    unfolding getUserFromCustomTable_def Some option.case
    by (rule v_try_catch; rule v_ret)
qed

lemma email_userData [simp]:
  "email (userData authUser firstName lastName E) = or_empty (auth_email authUser)"
  by (simp add: userData_def)

lemma v_createUser [v_rules]:
  "vouched E s (snd (createUserInCustomTable outer authUser firstName lastName E s))"
proof -
  have insert: "vouched E s'
      (snd ((case early of
               Some v \<Rightarrow> ret v
             | None \<Rightarrow>
                 bnd (await_race outer (InsertRow (userData authUser firstName lastName E))
                        (insertRow E) ''Database timeout'')
                   (\<lambda>r. if res_error r \<noteq> None then ret None
                        else
                          bnd (setUserCache
                                 (\<lambda>prev. prev(or_empty (auth_email authUser) \<mapsto> res_data r)))
                            (\<lambda>_. ret (res_data r)))) s'))"
    for early :: "User option option" and s'
  proof (cases early)
    case None
    show ?thesis
      unfolding None option.case
      by (rule v_store_then_cache) simp
  next
    case (Some v)
    show ?thesis unfolding Some option.case by (rule v_ret)
  qed
  have check: "vouched E s'
      (snd (try_catch
              (bnd (await SelectLimit1 (selectLimit1 E))
                 (\<lambda>r. if res_error r \<noteq> None then ret (Some None) else ret None))
              (\<lambda>tableCheckError. ret None) s'))" for s'
    by (intro v_try_catch v_bnd v_await v_ret) (simp_all add: v_ret)
  show ?thesis
    unfolding createUserInCustomTable_def
    by (intro v_try_catch v_bnd check insert v_ret)
qed

lemma v_updateLastLogin [v_rules]: "vouched E s (snd (updateLastLogin userId E s))"
  unfolding updateLastLogin_def
  by (auto intro!: v_rules)

lemma v_userSetup [v_rules]: "vouched E s (snd (userSetup snap E s))"
  unfolding userSetup_def
  by (auto intro!: v_rules split: option.split)

lemma v_recovery [v_rules]:
  "vouched E s (snd (recovery firstName lastName mail password snap E s))"
  unfolding recovery_def
  by (auto intro!: v_rules split: option.split auth_response.split)

lemma v_createProfile [v_rules]:
  "vouched E s (snd (createProfile dataUser firstName lastName E s))"
  unfolding createProfile_def
  by (auto intro!: v_rules split: option.split)

lemma v_checkUser: "vouched E s (snd (checkUser E s))"
  unfolding checkUser_def
  by (auto intro!: v_rules split: option.split)

lemma v_onAuthStateChange: "vouched E s (snd (onAuthStateChange session E s))"
  unfolding onAuthStateChange_def
  by (auto intro!: v_rules split: option.split)

lemma v_login: "vouched E s (snd (login mail password E s))"
  unfolding login_def console_warn_def
  by (auto intro!: v_rules split: option.split auth_response.split)

lemma v_register: "vouched E s (snd (register firstName lastName mail password E s))"
  unfolding register_def
  by (auto intro!: v_rules v_shrink split: option.split auth_response.split if_splits)

lemma v_logout: "vouched E s (snd (logout E s))"
  unfolding logout_def
  by (auto intro!: v_rules v_shrink)

lemma v_debugAuthState: "vouched E s (snd (debugAuthState mail E s))"
  unfolding debugAuthState_def
  by (auto intro!: v_rules)

lemma v_exec: "vouched E s (exec oper E s)"
  by (cases oper)
     (simp_all add: v_checkUser v_onAuthStateChange v_login v_register v_logout
        v_clearStaleCache v_debugAuthState)

lemma run_vouched:
  "userCache (run steps s) k = Some v \<Longrightarrow>
   userCache s k = Some v \<or> (k, v) \<in> set (provenance steps s)"
proof (induction steps arbitrary: s)
  case Nil
  then show ?case by simp
next
  case (Cons step rest)
  let ?s1 = "exec (fst step) (snd step) s"
  from Cons.prems have "userCache (run rest ?s1) k = Some v" by simp
  from Cons.IH [OF this] show ?case
  proof
    assume "userCache ?s1 k = Some v"
    with v_exec [of "snd step" s "fst step"] show ?thesis
      unfolding vouched_def by auto
  next
    assume "(k, v) \<in> set (provenance rest ?s1)"
    then show ?thesis by simp
  qed
qed

text \<open>
  C9 (as amended). \<open>getUserFromCustomTable\<close> and \<open>createUserInCustomTable\<close> write to
  the cache only after a store answer that carries no error: any entry the cache holds
  after a call was there before, or is the queried email with the data of such an answer
  to the select, or the inserted profile's email with the data of such an answer to the
  insert; after a store error, an exception or a timeout the cache is as it was. The data
  of an answer without error is cached as it is, null when the answer carries none. And
  this is an invariant of the provider: after any run of its operations from the mount
  state, every cache entry is an email with the data of an answer without error to a
  select by that email or to an insert of a profile with that email.
\<close>

theorem cache_entries_are_vouched:
  "(\<forall>k v. userCache (snd (getUserFromCustomTable outer snap mail E s)) k = Some v \<longrightarrow>
           userCache s k = Some v \<or> (k, v) \<in> set (answered E (SelectByEmail mail))) \<and>
   (\<forall>k v. userCache (snd (createUserInCustomTable outer authUser firstName lastName E s)) k
             = Some v \<longrightarrow>
           userCache s k = Some v \<or>
           (k, v) \<in> set (answered E (InsertRow (userData authUser firstName lastName E)))) \<and>
   (answered E (SelectByEmail mail) = [] \<longrightarrow>
      userCache (snd (getUserFromCustomTable outer snap mail E s)) = userCache s) \<and>
   (answered E (InsertRow (userData authUser firstName lastName E)) = [] \<longrightarrow>
      userCache (snd (createUserInCustomTable outer authUser firstName lastName E s))
        = userCache s) \<and>
   (\<forall>k v. userCache (run steps initialState) k = Some v \<longrightarrow>
           (k, v) \<in> set (provenance steps initialState))"
proof (intro conjI allI impI)
  fix k v
  assume "userCache (snd (getUserFromCustomTable outer snap mail E s)) k = Some v"
  then show "userCache s k = Some v \<or> (k, v) \<in> set (answered E (SelectByEmail mail))"
    by (cases "selectByEmail E")
       (auto simp add: getUserFromCustomTable_def async_defs
          split: option.splits if_splits)
next
  fix k v
  assume "userCache (snd (createUserInCustomTable outer authUser firstName lastName E s)) k
            = Some v"
  then show "userCache s k = Some v \<or>
             (k, v) \<in> set (answered E (InsertRow (userData authUser firstName lastName E)))"
    by (cases "selectLimit1 E"; cases "insertRow E")
       (auto simp add: createUserInCustomTable_def async_defs
          split: option.splits if_splits)
next
  assume "answered E (SelectByEmail mail) = []"
  then show "userCache (snd (getUserFromCustomTable outer snap mail E s)) = userCache s"
    by (cases "selectByEmail E")
       (auto simp add: getUserFromCustomTable_def async_defs
          split: option.splits if_splits)
next
  assume "answered E (InsertRow (userData authUser firstName lastName E)) = []"
  then show "userCache (snd (createUserInCustomTable outer authUser firstName lastName E s))
               = userCache s"
    by (cases "selectLimit1 E"; cases "insertRow E")
       (auto simp add: createUserInCustomTable_def async_defs
          split: option.splits if_splits)
next
  fix k v
  assume "userCache (run steps initialState) k = Some v"
  from run_vouched [OF this] show "(k, v) \<in> set (provenance steps initialState)"
    by (simp add: initialState_def)
qed

text \<open>
  A select answered with "no rows", a select that times out and an insert the store
  refuses leave the cache empty. A run: the session check finds Jane's session and her
  row, then Bob's entry is cleared, then the session check runs once more and gets no
  answer. Jane's entry is the row the first select returned.
\<close>

theorem cache_entries_witness:
  "userCache (snd (getUserFromCustomTable False Map.empty ''jane@x.com''
                     (idle\<lparr>selectByEmail := Fulfilled (PgError no_rows)\<rparr>) initialState))
     = Map.empty \<and>
   userCache (snd (getUserFromCustomTable False Map.empty ''jane@x.com'' idle initialState))
     = Map.empty \<and>
   userCache (snd (createUserInCustomTable False jane_auth ''Jane'' ''Doe''
                     (idle\<lparr>selectLimit1 := Fulfilled (PgData []),
                            insertRow := Fulfilled (PgError rls_violation)\<rparr>) initialState))
     = Map.empty \<and>
   userCache (run [(CheckUser, idle\<lparr>getSession := Fulfilled (Some jane_auth),
                                        selectByEmail := Fulfilled (PgData jane)\<rparr>),
                   (ClearStaleCache (Some ''bob@x.com''), idle),
                   (CheckUser, idle)] initialState) ''jane@x.com'' = Some (Some jane) \<and>
   (''jane@x.com'', Some jane) \<in> set
     (provenance [(CheckUser, idle\<lparr>getSession := Fulfilled (Some jane_auth),
                                       selectByEmail := Fulfilled (PgData jane)\<rparr>),
                  (ClearStaleCache (Some ''bob@x.com''), idle),
                  (CheckUser, idle)] initialState)"
proof -
  let ?E1 = "idle\<lparr>selectByEmail := Fulfilled (PgError no_rows)\<rparr>"
  let ?E2 = "idle\<lparr>selectLimit1 := Fulfilled (PgData []),
                    insertRow := Fulfilled (PgError rls_violation)\<rparr>"
  let ?steps = "[(CheckUser, idle\<lparr>getSession := Fulfilled (Some jane_auth),
                                       selectByEmail := Fulfilled (PgData jane)\<rparr>),
                 (ClearStaleCache (Some ''bob@x.com''), idle),
                 (CheckUser, idle)]"
  have a1: "answered ?E1 (SelectByEmail ''jane@x.com'') = []"
    by (simp add: idle_def)
  have a2: "answered idle (SelectByEmail ''jane@x.com'') = []"
    by (simp add: idle_def)
  have a3: "answered ?E2 (InsertRow (userData jane_auth ''Jane'' ''Doe'' ?E2)) = []"
    by (simp add: idle_def)
  have c: "userCache (run ?steps initialState) ''jane@x.com'' = Some (Some jane)"
    by (simp add: checkUser_def clearStaleCache_def getUserFromCustomTable_def cached_def
        or_empty_def jane_auth_def async_defs idle_def initialState_def)
  note t1 = cache_entries_are_vouched
              [where outer = False and snap = Map.empty and mail = "''jane@x.com''"
                 and E = ?E1 and s = initialState and authUser = jane_auth
                 and firstName = "''Jane''" and lastName = "''Doe''" and steps = ?steps]
  note t2 = cache_entries_are_vouched
              [where outer = False and snap = Map.empty and mail = "''jane@x.com''"
                 and E = idle and s = initialState and authUser = jane_auth
                 and firstName = "''Jane''" and lastName = "''Doe''" and steps = ?steps]
  note t3 = cache_entries_are_vouched
              [where outer = False and snap = Map.empty and mail = "''jane@x.com''"
                 and E = ?E2 and s = initialState and authUser = jane_auth
                 and firstName = "''Jane''" and lastName = "''Doe''" and steps = ?steps]
  from t1 a1 have 1: "userCache (snd (getUserFromCustomTable False Map.empty ''jane@x.com''
                     ?E1 initialState)) = Map.empty"
    by (simp add: initialState_def)
  from t2 a2 have 2: "userCache (snd (getUserFromCustomTable False Map.empty ''jane@x.com''
                     idle initialState)) = Map.empty"
    by (simp add: initialState_def)
  from t3 a3 have 3: "userCache (snd (createUserInCustomTable False jane_auth ''Jane'' ''Doe''
                     ?E2 initialState)) = Map.empty"
    by (simp add: initialState_def)
  from t1 c have 4: "(''jane@x.com'', Some jane) \<in> set (provenance ?steps initialState)"
    by blast
  from 1 2 3 c 4 show ?thesis by blast
qed

text \<open>
  C9 as stated fails: a profile query answered with neither data nor error is no failure
  for the code, which tests \<open>error\<close> alone, and null is cached under the email.
\<close>

theorem cache_holds_null_after_empty_answer:
  "fst (getUserFromCustomTable False Map.empty ''jane@x.com'' empty_answer initialState)
     = Fulfilled None \<and>
   userCache (snd (getUserFromCustomTable False Map.empty ''jane@x.com'' empty_answer
                     initialState)) ''jane@x.com'' = Some None"
  by (simp add: getUserFromCustomTable_def cached_def async_defs empty_answer_def idle_def
      initialState_def)

section \<open>Register\<close>

text \<open>The first request register sends is the sign-up, with the email already out of the cache.\<close>

lemma register_first_request:
  "prefix (issued s @ [(AuthSignUp mail password firstName lastName, (userCache s)(mail := None))])
     (issued (snd (register firstName lastName mail password E s)))"
  unfolding register_def
  apply (rule pre_try_catch)
   apply (simp only: bnd_setUserCache)
   apply (rule pre_bnd)
    apply (simp add: await_race_def)
   apply (auto intro!: ext_rules split: option.split auth_response.split)
  done

text \<open>
  C10. The requests register sends begin with the sign-up, and at the moment the sign-up
  goes out the cache is the prior cache with exactly the entry of the supplied email
  removed: that email has no entry, every other email has the entry it had.
\<close>

theorem register_invalidates_first:
  "\<exists>c rest.
     issued (snd (register firstName lastName mail password E s))
       = issued s @ (AuthSignUp mail password firstName lastName, c) # rest \<and>
     c mail = None \<and> (\<forall>k. k \<noteq> mail \<longrightarrow> c k = userCache s k)"
proof -
  from register_first_request [of s mail password firstName lastName E]
  obtain rest where
    "issued (snd (register firstName lastName mail password E s))
       = (issued s @ [(AuthSignUp mail password firstName lastName,
                       (userCache s)(mail := None))]) @ rest"
    unfolding prefix_def by blast
  then have
    "issued (snd (register firstName lastName mail password E s))
       = issued s @ (AuthSignUp mail password firstName lastName,
                     (userCache s)(mail := None)) # rest \<and>
     ((userCache s)(mail := None)) mail = None \<and>
     (\<forall>k. k \<noteq> mail \<longrightarrow> ((userCache s)(mail := None)) k = userCache s k)"
    by simp
  then show ?thesis by blast
qed

text \<open>
  Jane and Bob are cached and the sign-up does not answer: the one request sent is the
  sign-up, sent when Jane's entry was gone and Bob's still there.
\<close>

theorem register_invalidates_first_witness:
  "map fst (issued (snd (register ''Jane'' ''Doe'' ''jane@x.com'' ''Pwd123!'' idle twoCached)))
     = [AuthSignUp ''jane@x.com'' ''Pwd123!'' ''Jane'' ''Doe''] \<and>
   snd (hd (issued (snd (register ''Jane'' ''Doe'' ''jane@x.com'' ''Pwd123!'' idle twoCached))))
     ''jane@x.com'' = None \<and>
   snd (hd (issued (snd (register ''Jane'' ''Doe'' ''jane@x.com'' ''Pwd123!'' idle twoCached))))
     ''bob@x.com'' = Some (Some bob)"
  using register_invalidates_first
          [where E = idle and s = twoCached and mail = "''jane@x.com''"
             and firstName = "''Jane''" and lastName = "''Doe''" and password = "''Pwd123!''"]
  by (simp add: register_def async_defs idle_def twoCached_def)

text \<open>What register does once the provider has said that the identity exists.\<close>

lemma register_profile_found:
  assumes "signUp E = Fulfilled (AuthError signUpError)"
      and "code signUpError \<noteq> Some ''email_address_invalid''"
      and "alreadyExists signUpError"
      and "signInWithPassword E = Fulfilled (AuthData (Some signInUser))"
      and "cached (userCache s) mail = Some u \<or> selectByEmail E = Fulfilled (PgData u)"
  shows "fst (register firstName lastName mail password E s) =
           Fulfilled \<lparr>error = None, success = Some ''User already exists, please login''\<rparr> \<and>
         map fst (issued (snd (register firstName lastName mail password E s))) =
           map fst (issued s) @
             AuthSignUp mail password firstName lastName #
             AuthSignInWithPassword mail password #
             (if cached (userCache s) mail = None then [SelectByEmail mail] else [])"
proof -
  let ?s2 = "s\<lparr>userCache := (userCache s)(mail := None),
               issued := issued s @ [(AuthSignUp mail password firstName lastName,
                                      (userCache s)(mail := None)),
                                     (AuthSignInWithPassword mail password,
                                      (userCache s)(mail := None))]\<rparr>"
  from assms(5) getUser_resolves [of "userCache s" mail u E False ?s2]
  obtain u' where g: "getUserFromCustomTable False (userCache s) mail E ?s2 =
           (Fulfilled (Some u'),
            if cached (userCache s) mail = None
            then ?s2\<lparr>issued := issued ?s2 @ [(SelectByEmail mail, userCache ?s2)],
                   userCache := (userCache ?s2)(mail \<mapsto> Some u)\<rparr>
            else ?s2)"
    by blast
  show ?thesis
    using assms(1-4) g
    by (simp add: register_def recovery_def ret_def bnd_def try_catch_def await_def
        await_race_def setUserCache_def)
qed

lemma register_signIn_fails:
  assumes "signUp E = Fulfilled (AuthError signUpError)"
      and "code signUpError \<noteq> Some ''email_address_invalid''"
      and "alreadyExists signUpError"
      and "(\<exists>e. signInWithPassword E = Fulfilled (AuthError e)) \<or>
           (\<exists>m. signInWithPassword E = Rejected m)"
  shows "fst (register firstName lastName mail password E s) =
           Fulfilled \<lparr>error = Some ''User already exists, please login'', success = None\<rparr> \<and>
         map fst (issued (snd (register firstName lastName mail password E s))) =
           map fst (issued s) @
             [AuthSignUp mail password firstName lastName,
              AuthSignInWithPassword mail password]"
  using assms
  by (auto simp add: register_def recovery_def ret_def bnd_def try_catch_def await_def
      await_race_def setUserCache_def)

lemma already_registered_exists:
  "alreadyExists already_registered \<and> code already_registered \<noteq> Some ''email_address_invalid''"
  by (simp add: alreadyExists_def already_registered_def)

text \<open>
  C2 (as amended). When the provider answers the sign-up of a register call with an
  "already exists" error (the code \<open>user_already_exists\<close> or a message that says so,
  and not the code \<open>email_address_invalid\<close>), as for a second registration of the
  same email:
  if the recovery sign-in succeeds and the profile is found, in the cache the function
  captured or by the store query, register sends no insert, so it creates no second
  row, and returns success "User already exists, please login"; if the recovery sign-in
  returns an error or throws, register sends no insert either and returns, as an error
  value and not as an exception, "User already exists, please login".
\<close>

theorem register_existing_identity:
  assumes "signUp E = Fulfilled (AuthError signUpError)"
      and "code signUpError \<noteq> Some ''email_address_invalid''"
      and "alreadyExists signUpError"
  shows "(signInWithPassword E = Fulfilled (AuthData (Some signInUser)) \<and>
          (cached (userCache s) mail = Some u \<or> selectByEmail E = Fulfilled (PgData u)) \<longrightarrow>
            fst (register firstName lastName mail password E s) =
              Fulfilled \<lparr>error = None, success = Some ''User already exists, please login''\<rparr> \<and>
            map fst (issued (snd (register firstName lastName mail password E s))) =
              map fst (issued s) @
                AuthSignUp mail password firstName lastName #
                AuthSignInWithPassword mail password #
                (if cached (userCache s) mail = None then [SelectByEmail mail] else [])) \<and>
         ((\<exists>e. signInWithPassword E = Fulfilled (AuthError e)) \<or>
          (\<exists>m. signInWithPassword E = Rejected m) \<longrightarrow>
            fst (register firstName lastName mail password E s) =
              Fulfilled \<lparr>error = Some ''User already exists, please login'', success = None\<rparr> \<and>
            map fst (issued (snd (register firstName lastName mail password E s))) =
              map fst (issued s) @
                [AuthSignUp mail password firstName lastName,
                 AuthSignInWithPassword mail password])"
  using register_profile_found [OF assms] register_signIn_fails [OF assms]
  by blast

text \<open>
  Jane registers a second time. With her password, and her row in the store: success,
  three requests, no insert. With another password: the error value, two requests.
\<close>

theorem register_existing_identity_witness:
  "signUp second_found = Fulfilled (AuthError already_registered) \<and>
   signInWithPassword second_found = Fulfilled (AuthData (Some jane_auth)) \<and>
   selectByEmail second_found = Fulfilled (PgData jane) \<and>
   fst (register ''Jane'' ''Doe'' ''jane@x.com'' ''Pwd123!'' second_found initialState) =
     Fulfilled \<lparr>error = None, success = Some ''User already exists, please login''\<rparr> \<and>
   map fst (issued (snd (register ''Jane'' ''Doe'' ''jane@x.com'' ''Pwd123!''
                           second_found initialState))) =
     [AuthSignUp ''jane@x.com'' ''Pwd123!'' ''Jane'' ''Doe'',
      AuthSignInWithPassword ''jane@x.com'' ''Pwd123!'',
      SelectByEmail ''jane@x.com''] \<and>
   signUp second_refused = Fulfilled (AuthError already_registered) \<and>
   signInWithPassword second_refused = Fulfilled (AuthError invalid_credentials) \<and>
   map fst (issued (snd (register ''Jane'' ''Doe'' ''jane@x.com'' ''Other456!''
                           second_refused initialState))) =
     [AuthSignUp ''jane@x.com'' ''Other456!'' ''Jane'' ''Doe'',
      AuthSignInWithPassword ''jane@x.com'' ''Other456!'']"
  using register_existing_identity
          [where E = second_found and signUpError = already_registered
             and signInUser = jane_auth and s = initialState and mail = "''jane@x.com''"
             and u = jane and firstName = "''Jane''" and lastName = "''Doe''"
             and password = "''Pwd123!''"]
        register_existing_identity
          [where E = second_refused and signUpError = already_registered
             and signInUser = jane_auth and s = initialState and mail = "''jane@x.com''"
             and u = jane and firstName = "''Jane''" and lastName = "''Doe''"
             and password = "''Other456!''"]
        already_registered_exists
  by (simp add: second_found_def second_refused_def idle_def initialState_def cached_def)

text \<open>
  C2 as stated fails: a second registration of Jane's email with another password is
  answered with an error result, not with a success.
\<close>

theorem register_second_attempt_error:
  "fst (register ''Jane'' ''Doe'' ''jane@x.com'' ''Other456!'' second_refused initialState) =
     Fulfilled \<lparr>error = Some ''User already exists, please login'', success = None\<rparr>"
  by (simp add: register_def recovery_def alreadyExists_def async_defs
      second_refused_def already_registered_def idle_def initialState_def)

lemma register_recovery_creates:
  assumes "signUp E = Fulfilled (AuthError signUpError)"
      and "code signUpError \<noteq> Some ''email_address_invalid''"
      and "alreadyExists signUpError"
      and "signInWithPassword E = Fulfilled (AuthData (Some signInUser))"
      and "cached (userCache s) mail = None"
      and "row_of (selectByEmail E) = None"
      and "settled (selectLimit1 E)" and "\<not> has_error (selectLimit1 E)"
      and "insertRow E = Fulfilled (PgData row)"
  shows "fst (register firstName lastName mail password E s) =
           Fulfilled \<lparr>error = None, success = Some ''User setup completed, please login''\<rparr> \<and>
         map fst (issued (snd (register firstName lastName mail password E s))) =
           map fst (issued s) @
             [AuthSignUp mail password firstName lastName,
              AuthSignInWithPassword mail password,
              SelectByEmail mail, SelectLimit1,
              InsertRow (userData signInUser firstName lastName E)]"
proof -
  let ?s2 = "s\<lparr>userCache := (userCache s)(mail := None),
               issued := issued s @ [(AuthSignUp mail password firstName lastName,
                                      (userCache s)(mail := None)),
                                     (AuthSignInWithPassword mail password,
                                      (userCache s)(mail := None))]\<rparr>"
  obtain s3 where g: "getUserFromCustomTable False (userCache s) mail E ?s2 = (Fulfilled None, s3)"
      and g': "map fst (issued s3) = map fst (issued ?s2) @ [SelectByEmail mail]"
    using getUser_no_row [OF assms(5,6), of ?s2] by (metis prod.collapse)
  have c: "createUserInCustomTable False signInUser firstName lastName E s3 =
           (Fulfilled (Some row),
            s3\<lparr>issued := issued s3 @
                  [(SelectLimit1, userCache s3),
                   (InsertRow (userData signInUser firstName lastName E), userCache s3)],
               userCache := (userCache s3)(or_empty (auth_email signInUser) \<mapsto> Some row)\<rparr>)"
    by (rule createUser_returns_row [OF assms(7,8,9)])
  show ?thesis
    using assms(1-4) g g' c
    by (simp add: register_def recovery_def ret_def bnd_def try_catch_def await_def
        await_race_def setUserCache_def)
qed

lemma register_recovery_creation_fails:
  assumes "signUp E = Fulfilled (AuthError signUpError)"
      and "code signUpError \<noteq> Some ''email_address_invalid''"
      and "alreadyExists signUpError"
      and "signInWithPassword E = Fulfilled (AuthData (Some signInUser))"
      and "cached (userCache s) mail = None"
      and "row_of (selectByEmail E) = None"
      and "has_error (selectLimit1 E) \<or> settled (selectLimit1 E) \<and> row_of (insertRow E) = None"
  shows "fst (register firstName lastName mail password E s) =
           Fulfilled \<lparr>error = Some ''User exists but profile setup failed. Please contact support.'',
                      success = None\<rparr>"
proof -
  let ?s2 = "s\<lparr>userCache := (userCache s)(mail := None),
               issued := issued s @ [(AuthSignUp mail password firstName lastName,
                                      (userCache s)(mail := None)),
                                     (AuthSignInWithPassword mail password,
                                      (userCache s)(mail := None))]\<rparr>"
  obtain s3 where g: "getUserFromCustomTable False (userCache s) mail E ?s2 = (Fulfilled None, s3)"
    using getUser_no_row [OF assms(5,6), of ?s2] by (metis prod.collapse)
  have "fst (createUserInCustomTable False signInUser firstName lastName E s3) = Fulfilled None"
  proof (cases "has_error (selectLimit1 E)")
    case True
    then show ?thesis by (simp add: createUser_table_error)
  next
    case False
    with assms(7) show ?thesis by (simp add: createUser_no_row)
  qed
  then obtain s4 where
    c: "createUserInCustomTable False signInUser firstName lastName E s3 = (Fulfilled None, s4)"
    by (metis prod.collapse)
  show ?thesis
    using assms(1-4) g c
    by (simp add: register_def recovery_def ret_def bnd_def try_catch_def await_def
        await_race_def setUserCache_def)
qed

text \<open>
  C4 (as amended). In the recovery path for an identity that already exists (the
  sign-up was answered with an "already exists" error), when the sign-in with the
  supplied credentials succeeds and the cache register captured has no usable entry for
  the email: if the profile query is answered with a matching row and no error, register
  returns success "User already exists, please login". If the query yields no row (an
  error, an exception, no data, or no answer before its timer), then: when the table
  check settles without an error and the insert is answered with the row, register has
  sent one insert, of a profile whose \<open>user_id\<close> is the id of the now-authenticated
  identity, and returns success "User setup completed, please login"; when the table
  check is answered with an error, or it settles and the insert yields no row (an error,
  an exception, no data, or no answer before its timer), register returns the error
  "User exists but profile setup failed. Please contact support."
\<close>

theorem register_recovery_outcomes:
  assumes "signUp E = Fulfilled (AuthError signUpError)"
      and "code signUpError \<noteq> Some ''email_address_invalid''"
      and "alreadyExists signUpError"
      and "signInWithPassword E = Fulfilled (AuthData (Some signInUser))"
      and "cached (userCache s) mail = None"
  shows "(selectByEmail E = Fulfilled (PgData u) \<longrightarrow>
            fst (register firstName lastName mail password E s) =
              Fulfilled \<lparr>error = None, success = Some ''User already exists, please login''\<rparr>) \<and>
         (row_of (selectByEmail E) = None \<and>
          settled (selectLimit1 E) \<and> \<not> has_error (selectLimit1 E) \<and>
          insertRow E = Fulfilled (PgData row) \<longrightarrow>
            fst (register firstName lastName mail password E s) =
              Fulfilled \<lparr>error = None, success = Some ''User setup completed, please login''\<rparr> \<and>
            map fst (issued (snd (register firstName lastName mail password E s))) =
              map fst (issued s) @
                [AuthSignUp mail password firstName lastName,
                 AuthSignInWithPassword mail password,
                 SelectByEmail mail, SelectLimit1,
                 InsertRow (userData signInUser firstName lastName E)] \<and>
            user_id (userData signInUser firstName lastName E) = IdString (auth_id signInUser)) \<and>
         (row_of (selectByEmail E) = None \<and>
          (has_error (selectLimit1 E) \<or>
           settled (selectLimit1 E) \<and> row_of (insertRow E) = None) \<longrightarrow>
            fst (register firstName lastName mail password E s) =
              Fulfilled \<lparr>error = Some
                           ''User exists but profile setup failed. Please contact support.'',
                         success = None\<rparr>)"
proof (intro conjI impI)
  assume "selectByEmail E = Fulfilled (PgData u)"
  with register_profile_found [OF assms(1-4), of s mail u firstName lastName password]
  show "fst (register firstName lastName mail password E s) =
              Fulfilled \<lparr>error = None, success = Some ''User already exists, please login''\<rparr>"
    by blast
next
  assume a: "row_of (selectByEmail E) = None \<and>
          settled (selectLimit1 E) \<and> \<not> has_error (selectLimit1 E) \<and>
          insertRow E = Fulfilled (PgData row)"
  with register_recovery_creates [OF assms, of row firstName lastName password]
  show "fst (register firstName lastName mail password E s) =
              Fulfilled \<lparr>error = None, success = Some ''User setup completed, please login''\<rparr>"
    and "map fst (issued (snd (register firstName lastName mail password E s))) =
              map fst (issued s) @
                [AuthSignUp mail password firstName lastName,
                 AuthSignInWithPassword mail password,
                 SelectByEmail mail, SelectLimit1,
                 InsertRow (userData signInUser firstName lastName E)]"
    by simp_all
  show "user_id (userData signInUser firstName lastName E) = IdString (auth_id signInUser)"
    by (simp add: userData_def)
next
  assume "row_of (selectByEmail E) = None \<and>
          (has_error (selectLimit1 E) \<or>
           settled (selectLimit1 E) \<and> row_of (insertRow E) = None)"
  with register_recovery_creation_fails [OF assms, of firstName lastName password]
  show "fst (register firstName lastName mail password E s) =
              Fulfilled \<lparr>error = Some
                           ''User exists but profile setup failed. Please contact support.'',
                         success = None\<rparr>"
    by simp
qed

text \<open>
  Jane's identity exists, her sign-in succeeds and nothing is cached. Her row is in the
  store: "already exists". Her row is missing and the insert returns it: "setup
  completed". Her row is missing and the store refuses the insert, or the table cannot be
  read: "profile setup failed".
\<close>

theorem register_recovery_outcomes_witness:
  "cached (userCache initialState) ''jane@x.com'' = None \<and>
   signInWithPassword second_found = Fulfilled (AuthData (Some jane_auth)) \<and>
   selectByEmail second_found = Fulfilled (PgData jane) \<and>
   fst (register ''Jane'' ''Doe'' ''jane@x.com'' ''Pwd123!'' second_found initialState) =
     Fulfilled \<lparr>error = None, success = Some ''User already exists, please login''\<rparr> \<and>
   row_of (selectByEmail second_row_missing) = None \<and>
   insertRow second_row_missing = Fulfilled (PgData jane) \<and>
   fst (register ''Jane'' ''Doe'' ''jane@x.com'' ''Pwd123!'' second_row_missing initialState) =
     Fulfilled \<lparr>error = None, success = Some ''User setup completed, please login''\<rparr> \<and>
   map fst (issued (snd (register ''Jane'' ''Doe'' ''jane@x.com'' ''Pwd123!''
                           second_row_missing initialState))) =
     [AuthSignUp ''jane@x.com'' ''Pwd123!'' ''Jane'' ''Doe'',
      AuthSignInWithPassword ''jane@x.com'' ''Pwd123!'',
      SelectByEmail ''jane@x.com'', SelectLimit1,
      InsertRow (userData jane_auth ''Jane'' ''Doe'' second_row_missing)] \<and>
   row_of (insertRow second_insert_refused) = None \<and>
   fst (register ''Jane'' ''Doe'' ''jane@x.com'' ''Pwd123!'' second_insert_refused initialState) =
     Fulfilled \<lparr>error = Some ''User exists but profile setup failed. Please contact support.'',
                success = None\<rparr> \<and>
   has_error (selectLimit1 second_table_error) \<and>
   fst (register ''Jane'' ''Doe'' ''jane@x.com'' ''Pwd123!'' second_table_error initialState) =
     Fulfilled \<lparr>error = Some ''User exists but profile setup failed. Please contact support.'',
                success = None\<rparr>"
  using register_recovery_outcomes
          [where E = second_found and signUpError = already_registered
             and signInUser = jane_auth and s = initialState and mail = "''jane@x.com''"
             and u = jane and row = jane and firstName = "''Jane''" and lastName = "''Doe''"
             and password = "''Pwd123!''"]
        register_recovery_outcomes
          [where E = second_row_missing and signUpError = already_registered
             and signInUser = jane_auth and s = initialState and mail = "''jane@x.com''"
             and u = jane and row = jane and firstName = "''Jane''" and lastName = "''Doe''"
             and password = "''Pwd123!''"]
        register_recovery_outcomes
          [where E = second_insert_refused and signUpError = already_registered
             and signInUser = jane_auth and s = initialState and mail = "''jane@x.com''"
             and u = jane and row = jane and firstName = "''Jane''" and lastName = "''Doe''"
             and password = "''Pwd123!''"]
        register_recovery_outcomes
          [where E = second_table_error and signUpError = already_registered
             and signInUser = jane_auth and s = initialState and mail = "''jane@x.com''"
             and u = jane and row = jane and firstName = "''Jane''" and lastName = "''Doe''"
             and password = "''Pwd123!''"]
        already_registered_exists
  by (simp add: second_found_def second_row_missing_def second_insert_refused_def
      second_table_error_def idle_def initialState_def settled_def has_error_def row_of_def
      cached_def)

text \<open>
  C4 as stated fails: Jane's row is missing and the store refuses the insert, and
  register returns an error instead of "User setup completed, please login".
\<close>

theorem register_recovery_insert_refused:
  "fst (register ''Jane'' ''Doe'' ''jane@x.com'' ''Pwd123!'' second_insert_refused initialState) =
     Fulfilled \<lparr>error = Some ''User exists but profile setup failed. Please contact support.'',
                success = None\<rparr>"
  by (simp add: register_def recovery_def alreadyExists_def getUserFromCustomTable_def
      createUserInCustomTable_def cached_def async_defs second_insert_refused_def
      already_registered_def idle_def initialState_def)

text \<open>
  C3. After a successful sign-up, when the table check does not fail and the insert
  returns a row whose \<open>user_id\<close> differs from the id the identity provider issued,
  register sends a delete for the rows with that \<open>user_id\<close> and, once the delete has
  settled (whatever its outcome), returns the error "User profile creation failed.
  Please try again."
\<close>

theorem register_id_mismatch_cleanup:
  assumes "signUp E = Fulfilled (AuthData (Some dataUser))"
      and "settled (selectLimit1 E)" and "\<not> has_error (selectLimit1 E)"
      and "insertRow E = Fulfilled (PgData row)"
      and "user_id row \<noteq> IdString (auth_id dataUser)"
      and "settled (deleteRow E)"
  shows "fst (register firstName lastName mail password E s) =
           Fulfilled \<lparr>error = Some ''User profile creation failed. Please try again.'',
                      success = None\<rparr> \<and>
         map fst (issued (snd (register firstName lastName mail password E s))) =
           map fst (issued s) @
             [AuthSignUp mail password firstName lastName, SelectLimit1,
              InsertRow (userData dataUser firstName lastName E),
              DeleteByUserId (user_id row)]"
  using assms(1,4,5,6)
  by (simp add: register_def createProfile_def
        createUser_returns_row [OF assms(2,3,4)] async_defs settled_def
      split: promise.splits)

text \<open>The store hands Jane's row back under the id 42 instead of "u-1".\<close>

theorem register_id_mismatch_witness:
  "signUp id_mismatch = Fulfilled (AuthData (Some jane_auth)) \<and>
   insertRow id_mismatch = Fulfilled (PgData (jane\<lparr>user_id := IdNumber 42\<rparr>)) \<and>
   user_id (jane\<lparr>user_id := IdNumber 42\<rparr>) \<noteq> IdString (auth_id jane_auth) \<and>
   fst (register ''Jane'' ''Doe'' ''jane@x.com'' ''Pwd123!'' id_mismatch initialState) =
     Fulfilled \<lparr>error = Some ''User profile creation failed. Please try again.'',
                success = None\<rparr> \<and>
   map fst (issued (snd (register ''Jane'' ''Doe'' ''jane@x.com'' ''Pwd123!''
                           id_mismatch initialState))) =
     [AuthSignUp ''jane@x.com'' ''Pwd123!'' ''Jane'' ''Doe'', SelectLimit1,
      InsertRow (userData jane_auth ''Jane'' ''Doe'' id_mismatch),
      DeleteByUserId (IdNumber 42)]"
  using register_id_mismatch_cleanup
          [where E = id_mismatch and dataUser = jane_auth
             and row = "jane\<lparr>user_id := IdNumber 42\<rparr>" and s = initialState
             and mail = "''jane@x.com''" and firstName = "''Jane''" and lastName = "''Doe''"
             and password = "''Pwd123!''"]
  by (simp add: id_mismatch_def idle_def initialState_def settled_def has_error_def jane_def
      jane_auth_def)

section \<open>Returning to the caller\<close>

lemma login_returns: "\<exists>r. fst (login mail password E s) = Fulfilled r"
  by (cases "selectByEmail E")
     (simp_all add: login_def userSetup_def console_warn_def clearStaleCache_def
        updateLastLogin_def getUserFromCustomTable_def async_defs
        split: option.splits promise.splits auth_response.splits)

lemma register_not_rejected:
  "fst (register firstName lastName mail password E s) \<noteq> Rejected e"
  unfolding register_def
  by (rule try_catch_not_rejected) (simp add: ret_def)

lemma logout_not_rejected: "fst (logout E s) \<noteq> Rejected e"
  unfolding logout_def
  by (rule try_catch_not_rejected) (simp add: ret_def)

lemma register_settles:
  "settled (signInWithPassword E) \<Longrightarrow> settled (selectLimit1 E) \<Longrightarrow>
   settled (deleteRow E) \<Longrightarrow>
   settled (fst (register firstName lastName mail password E s))"
  unfolding register_def
  by (auto intro!: np_rules split: option.split auth_response.split)

lemma np_bnd_await_race:
  assumes "\<And>x s'. p = Fulfilled x \<Longrightarrow> settled (fst (f x s'))"
  shows "settled (fst (bnd (await_race False rq p msg) f s))"
  using assms
  by (cases p) (simp_all add: bnd_def await_race_def settled_def)

lemma register_settles_after_signUp:
  assumes "signUp E = Fulfilled (AuthData x)" and "settled (deleteRow E)"
  shows "settled (fst (register firstName lastName mail password E s))"
  unfolding register_def
  apply (rule np_try_catch)
   apply (rule np_bnd)
    apply (rule np_setUserCache)
   apply (rule np_bnd_await_race)
   apply (use assms in \<open>auto intro!: np_rules split: option.split\<close>)
  done

text \<open>
  Whatever the external calls do: login returns a result value; register and logout
  never end in an exception, and they return a result value whenever each of their
  waits that no timer bounds settles (the recovery sign-in, the table check of the
  recovery path and the clean-up delete for register; the sign-out for logout). A
  register call whose sign-up succeeded returns as soon as the clean-up delete settles,
  also when the table check or the insert never answers.
\<close>

lemma operations_return_a_result:
  "(\<exists>r. fst (login mail password E s) = Fulfilled r) \<and>
   (\<forall>e. fst (register firstName lastName mail password E s) \<noteq> Rejected e) \<and>
   (\<forall>e. fst (logout E s) \<noteq> Rejected e) \<and>
   (settled (signInWithPassword E) \<and> settled (selectLimit1 E) \<and> settled (deleteRow E)
      \<longrightarrow> (\<exists>r. fst (register firstName lastName mail password E s) = Fulfilled r)) \<and>
   ((\<exists>x. signUp E = Fulfilled (AuthData x)) \<and> settled (deleteRow E)
      \<longrightarrow> (\<exists>r. fst (register firstName lastName mail password E s) = Fulfilled r)) \<and>
   (settled (signOut E) \<longrightarrow> fst (logout E s) = Fulfilled ())"
proof -
  have fulfilled: "\<exists>r. fst (register firstName lastName mail password E s) = Fulfilled r"
    if "settled (fst (register firstName lastName mail password E s))"
    using that register_not_rejected [of firstName lastName mail password E s]
    by (cases "fst (register firstName lastName mail password E s)")
       (auto simp add: settled_def)
  have out: "fst (logout E s) = Fulfilled ()" if "settled (signOut E)"
    using that by (cases "signOut E") (simp_all add: logout_def async_defs settled_def)
  show ?thesis
  proof (intro conjI allI impI)
    show "\<exists>r. fst (login mail password E s) = Fulfilled r" by (rule login_returns)
  next
    fix e show "fst (register firstName lastName mail password E s) \<noteq> Rejected e"
      by (rule register_not_rejected)
  next
    fix e show "fst (logout E s) \<noteq> Rejected e" by (rule logout_not_rejected)
  next
    assume "settled (signInWithPassword E) \<and> settled (selectLimit1 E) \<and> settled (deleteRow E)"
    then show "\<exists>r. fst (register firstName lastName mail password E s) = Fulfilled r"
      by (intro fulfilled register_settles) simp_all
  next
    assume "(\<exists>x. signUp E = Fulfilled (AuthData x)) \<and> settled (deleteRow E)"
    then show "\<exists>r. fst (register firstName lastName mail password E s) = Fulfilled r"
      by (auto intro!: fulfilled register_settles_after_signUp)
  next
    assume "settled (signOut E)"
    then show "fst (logout E s) = Fulfilled ()" by (rule out)
  qed
qed

text \<open>
  C6 (the code departs from the claim). Four waits have no timer: the recovery sign-in
  (line 458), the table check (lines 40-43), the clean-up delete (line 554) and the
  sign-out (line 594). Jane registers a second time and the recovery sign-in never
  answers: register never returns. She logs out and the sign-out never answers: logout
  never returns. The claim has every operation return a result for every outcome.
\<close>

theorem register_and_logout_can_hang:
  "signUp second_signIn_hangs = Fulfilled (AuthError already_registered) \<and>
   signInWithPassword second_signIn_hangs = Pending \<and>
   fst (register ''Jane'' ''Doe'' ''jane@x.com'' ''Pwd123!'' second_signIn_hangs initialState)
     = Pending \<and>
   signOut idle = Pending \<and>
   fst (logout idle signedIn) = Pending"
  by (simp add: register_def recovery_def alreadyExists_def logout_def async_defs
      second_signIn_hangs_def already_registered_def idle_def initialState_def signedIn_def)

section \<open>Further properties\<close>

text \<open>
  A first registration: the sign-up succeeds, the table check does not fail and the
  insert returns a row under the identity's own id. Register sends exactly one insert,
  of a profile whose \<open>user_id\<close> is the id the provider issued, returns "User
  registered, please login", and does not sign the new user in: no sign-in request is
  sent and \<open>user\<close> is left as it was.
\<close>

theorem register_new_identity:
  assumes "signUp E = Fulfilled (AuthData (Some dataUser))"
      and "settled (selectLimit1 E)" and "\<not> has_error (selectLimit1 E)"
      and "insertRow E = Fulfilled (PgData row)"
      and "user_id row = IdString (auth_id dataUser)"
  shows "fst (register firstName lastName mail password E s) =
           Fulfilled \<lparr>error = None, success = Some ''User registered, please login''\<rparr> \<and>
         map fst (issued (snd (register firstName lastName mail password E s))) =
           map fst (issued s) @
             [AuthSignUp mail password firstName lastName, SelectLimit1,
              InsertRow (userData dataUser firstName lastName E)] \<and>
         user_id (userData dataUser firstName lastName E) = IdString (auth_id dataUser) \<and>
         user (snd (register firstName lastName mail password E s)) = user s"
  using assms(1,4,5)
  by (simp add: register_def createProfile_def userData_def
        createUser_returns_row [OF assms(2,3,4)] async_defs)

theorem register_new_identity_witness:
  "signUp (id_mismatch\<lparr>insertRow := Fulfilled (PgData jane)\<rparr>)
     = Fulfilled (AuthData (Some jane_auth)) \<and>
   user_id jane = IdString (auth_id jane_auth) \<and>
   fst (register ''Jane'' ''Doe'' ''jane@x.com'' ''Pwd123!''
          (id_mismatch\<lparr>insertRow := Fulfilled (PgData jane)\<rparr>) initialState) =
     Fulfilled \<lparr>error = None, success = Some ''User registered, please login''\<rparr> \<and>
   user (snd (register ''Jane'' ''Doe'' ''jane@x.com'' ''Pwd123!''
          (id_mismatch\<lparr>insertRow := Fulfilled (PgData jane)\<rparr>) initialState)) = None"
  using register_new_identity
          [where E = "id_mismatch\<lparr>insertRow := Fulfilled (PgData jane)\<rparr>"
             and dataUser = jane_auth and row = jane and s = initialState
             and mail = "''jane@x.com''" and firstName = "''Jane''" and lastName = "''Doe''"
             and password = "''Pwd123!''"]
  by (simp add: id_mismatch_def idle_def initialState_def settled_def has_error_def jane_def
      jane_auth_def)

text \<open>
  A login whose sign-in succeeded but whose user setup does not finish before the
  timer (the session fetch or the profile query does not answer) still returns
  \<open>{ error: null }\<close>, with \<open>user\<close>, \<open>loading\<close> and the cache as they were.
\<close>

theorem login_setup_timeout:
  assumes "signInWithPassword E = Fulfilled (AuthData dataUser)"
      and "getSession E = Pending \<or>
           (getSession E = Fulfilled (Some sessionUser) \<and>
            cached (userCache s) (or_empty (auth_email sessionUser)) = None \<and>
            selectByEmail E = Pending)"
  shows "fst (login mail password E s) = Fulfilled \<lparr>error = None\<rparr> \<and>
         user (snd (login mail password E s)) = user s \<and>
         loading (snd (login mail password E s)) = loading s \<and>
         userCache (snd (login mail password E s)) = userCache s"
  using assms
  by (auto simp add: login_def userSetup_def console_warn_def getUserFromCustomTable_def
      async_defs split: option.splits)

theorem login_setup_timeout_witness:
  "signInWithPassword (idle\<lparr>signInWithPassword := Fulfilled (AuthData (Some jane_auth))\<rparr>)
     = Fulfilled (AuthData (Some jane_auth)) \<and>
   getSession (idle\<lparr>signInWithPassword := Fulfilled (AuthData (Some jane_auth))\<rparr>) = Pending \<and>
   fst (login ''jane@x.com'' ''Pwd123!''
          (idle\<lparr>signInWithPassword := Fulfilled (AuthData (Some jane_auth))\<rparr>) initialState)
     = Fulfilled \<lparr>error = None\<rparr> \<and>
   user (snd (login ''jane@x.com'' ''Pwd123!''
          (idle\<lparr>signInWithPassword := Fulfilled (AuthData (Some jane_auth))\<rparr>) initialState))
     = None \<and>
   loading (snd (login ''jane@x.com'' ''Pwd123!''
          (idle\<lparr>signInWithPassword := Fulfilled (AuthData (Some jane_auth))\<rparr>) initialState))
     = True"
  using login_setup_timeout
          [where E = "idle\<lparr>signInWithPassword := Fulfilled (AuthData (Some jane_auth))\<rparr>"
             and dataUser = "Some jane_auth" and s = initialState and sessionUser = jane_auth
             and mail = "''jane@x.com''" and password = "''Pwd123!''"]
  by (simp add: idle_def initialState_def)

text \<open>
  A sign-in that the provider refuses is reported with the provider's message verbatim;
  one that does not answer before the timer, with the "taking too long" message. Neither
  touches \<open>user\<close> or the cache.
\<close>

theorem login_failure_messages:
  "(signInWithPassword E = Fulfilled (AuthError e) \<longrightarrow>
      login mail password E s =
        (Fulfilled \<lparr>error = Some (message e)\<rparr>,
         s\<lparr>issued := issued s @ [(AuthSignInWithPassword mail password, userCache s)]\<rparr>)) \<and>
   (signInWithPassword E = Pending \<longrightarrow>
      login mail password E s =
        (Fulfilled \<lparr>error = Some ''Authentication is taking too long. Please try again.''\<rparr>,
         s\<lparr>issued := issued s @ [(AuthSignInWithPassword mail password, userCache s)]\<rparr>))"
  by (simp add: login_def async_defs)

theorem login_failure_messages_witness:
  "fst (login ''jane@x.com'' ''Other456!''
          (idle\<lparr>signInWithPassword := Fulfilled (AuthError invalid_credentials)\<rparr>) signedIn)
     = Fulfilled \<lparr>error = Some ''Invalid login credentials''\<rparr> \<and>
   fst (login ''jane@x.com'' ''Pwd123!'' idle signedIn)
     = Fulfilled \<lparr>error = Some ''Authentication is taking too long. Please try again.''\<rparr>"
  using login_failure_messages
          [where E = "idle\<lparr>signInWithPassword := Fulfilled (AuthError invalid_credentials)\<rparr>"
             and e = invalid_credentials and s = signedIn
             and mail = "''jane@x.com''" and password = "''Other456!''"]
        login_failure_messages
          [where E = idle and e = invalid_credentials and s = signedIn
             and mail = "''jane@x.com''" and password = "''Pwd123!''"]
  by (simp add: idle_def invalid_credentials_def)

text \<open>
  \<open>clearStaleCache\<close> with a non-empty email removes that email's entry and leaves every
  other entry; with no email, or the empty one, it empties the cache. It sends nothing
  and leaves \<open>user\<close> alone.
\<close>

theorem clearStaleCache_one_or_all:
  "(mail \<noteq> [] \<longrightarrow>
      clearStaleCache (Some mail) s = (Fulfilled (), s\<lparr>userCache := (userCache s)(mail := None)\<rparr>)) \<and>
   clearStaleCache None s = (Fulfilled (), s\<lparr>userCache := Map.empty\<rparr>) \<and>
   clearStaleCache (Some []) s = (Fulfilled (), s\<lparr>userCache := Map.empty\<rparr>)"
  by (simp add: clearStaleCache_def setUserCache_def)

theorem clearStaleCache_witness:
  "userCache (snd (clearStaleCache (Some ''jane@x.com'') twoCached)) ''jane@x.com'' = None \<and>
   userCache (snd (clearStaleCache (Some ''jane@x.com'') twoCached)) ''bob@x.com'' = Some (Some bob) \<and>
   userCache (snd (clearStaleCache None twoCached)) = Map.empty"
  using clearStaleCache_one_or_all [of "''jane@x.com''" twoCached]
  by (simp add: twoCached_def)

end
